theory Spec2Isabelle
  imports Complex_Main "HOL-Library.AList" "HOL-Library.Sublist" "HOL-Library.Log_Nat"
begin

section \<open>Quebec income tax calculator\<close>

text \<open>
  The class \<open>QuebecIncomeTaxCalculator\<close> and the function \<open>generate_test_cases\<close>
  of the "Revenu disponible" project.

  Amounts (incomes, bracket bounds, rates, taxes) are Python numbers: the bracket bounds
  and thresholds are integer literals, the rates are float literals and an income is
  whatever number the caller passes. This first embedding takes them as exact reals: the
  decimal literal \<open>0.165\<close> denotes the rational \<open>165 / 1000\<close>, and nothing is
  rounded. The upper bound of a bracket is a number or \<open>float('inf')\<close>, which has its
  own constructor. A second embedding, further down, computes the same methods in IEEE
  double arithmetic; it decides what depends on rounding.
\<close>

subsection \<open>Data\<close>

text \<open>The exceptions the modelled code raises: \<open>ValueError\<close> with its message, and
  the \<open>IndexError\<close> of \<open>random.choice\<close> and of indexing.\<close>

datatype py_error = ValueError string | IndexError

datatype bound = Fin real | PosInf

text \<open>Python's \<open>min(income, bracket["max"])\<close>: the second argument when it is
  smaller, else the first.\<close>

fun min_bound :: "real \<Rightarrow> bound \<Rightarrow> real" where
  "min_bound x (Fin u) = (if u < x then u else x)"
| "min_bound x PosInf = x"

text \<open>A bracket is the dictionary \<open>{"min": _, "max": _, "rate": _}\<close>.\<close>

record bracket =
  min_b :: real
  max_b :: bound
  rate :: real

record calculator =
  year :: int
  tax_brackets :: "bracket list"

subsection \<open>The methods\<close>

text \<open>\<open>get_tax_brackets\<close> reads \<open>self.year\<close> and nothing else; the constructor calls
  it when the year is the only field the object has, so it takes the year.\<close>

definition get_tax_brackets :: "int \<Rightarrow> py_error + bracket list" where
  "get_tax_brackets y =
     (if y = 2023 then Inr
        [\<lparr>min_b = 0, max_b = Fin 46295, rate = 0.15\<rparr>,
         \<lparr>min_b = 46295, max_b = Fin 92580, rate = 0.20\<rparr>,
         \<lparr>min_b = 92580, max_b = Fin 112655, rate = 0.24\<rparr>,
         \<lparr>min_b = 112655, max_b = PosInf, rate = 0.2575\<rparr>]
      else if y = 2024 then Inr
        [\<lparr>min_b = 0, max_b = Fin 47000, rate = 0.15\<rparr>,
         \<lparr>min_b = 47000, max_b = Fin 94000, rate = 0.20\<rparr>,
         \<lparr>min_b = 94000, max_b = Fin 114000, rate = 0.24\<rparr>,
         \<lparr>min_b = 114000, max_b = PosInf, rate = 0.2575\<rparr>]
      else Inl (ValueError ''Year not supported''))"

text \<open>\<open>__init__\<close>: stores the year, then the brackets of that year; the exception of
  \<open>get_tax_brackets\<close> leaves no object behind.\<close>

definition init :: "int \<Rightarrow> py_error + calculator" where
  "init y =
     (case get_tax_brackets y of
        Inl e \<Rightarrow> Inl e
      | Inr bs \<Rightarrow> Inr \<lparr>year = y, tax_brackets = bs\<rparr>)"

text \<open>The body of the loop of \<open>calculate_tax\<close>, on the running \<open>tax\<close>.\<close>

definition tax_step :: "real \<Rightarrow> real \<Rightarrow> bracket \<Rightarrow> real" where
  "tax_step income tax b =
     (if income > min_b b
      then let taxable_amount = min_bound income (max_b b) - min_b b
           in tax + taxable_amount * rate b
      else tax)"

fun tax_loop :: "real \<Rightarrow> real \<Rightarrow> bracket list \<Rightarrow> real" where
  "tax_loop income tax [] = tax"
| "tax_loop income tax (b # bs) = tax_loop income (tax_step income tax b) bs"

definition calculate_tax :: "calculator \<Rightarrow> real \<Rightarrow> real" where
  "calculate_tax self income = tax_loop income 0 (tax_brackets self)"

definition calculate_tax_reduction :: "calculator \<Rightarrow> real \<Rightarrow> py_error + real" where
  "calculate_tax_reduction self income =
     (if year self = 2023 then
        (let reduction_rate = 0.165; reduction_threshold = 16143
         in if income \<le> reduction_threshold then Inr (income * reduction_rate)
            else Inr (reduction_threshold * reduction_rate))
      else if year self = 2024 then
        (let reduction_rate = 0.165; reduction_threshold = 16400
         in if income \<le> reduction_threshold then Inr (income * reduction_rate)
            else Inr (reduction_threshold * reduction_rate))
      else Inl (ValueError ''Year not supported''))"

definition calculate_total_tax :: "calculator \<Rightarrow> real \<Rightarrow> py_error + real" where
  "calculate_total_tax self income =
     (let tax = calculate_tax self income
      in case calculate_tax_reduction self income of
           Inl e \<Rightarrow> Inl e
         | Inr reduction \<Rightarrow> Inr (tax - reduction))"

subsection \<open>The methods as state transformers\<close>

text \<open>
  The same methods with the object passed explicitly: a method takes the object and
  returns its result, or the exception it raises, together with the object it leaves.
  Each is built from the accesses that the source makes: reading an attribute
  (\<open>self.year\<close>, \<open>self.tax_brackets\<close>), assigning one (only \<open>__init__\<close> does),
  returning, raising, and running one statement after another.
\<close>

type_synonym 'a action = "calculator \<Rightarrow> (py_error + 'a) \<times> calculator"

definition attr :: "(calculator \<Rightarrow> 'a) \<Rightarrow> 'a action" where
  "attr field self = (Inr (field self), self)"

definition assign_year :: "int \<Rightarrow> unit action" where
  "assign_year y self = (Inr (), self\<lparr>year := y\<rparr>)"

definition assign_tax_brackets :: "bracket list \<Rightarrow> unit action" where
  "assign_tax_brackets bs self = (Inr (), self\<lparr>tax_brackets := bs\<rparr>)"

definition result :: "'a \<Rightarrow> 'a action" where
  "result v self = (Inr v, self)"

definition raise :: "py_error \<Rightarrow> 'a action" where
  "raise e self = (Inl e, self)"

definition and_then :: "'a action \<Rightarrow> ('a \<Rightarrow> 'b action) \<Rightarrow> 'b action" where
  "and_then m f self =
     (case m self of (Inl e, self') \<Rightarrow> (Inl e, self') | (Inr a, self') \<Rightarrow> f a self')"

text \<open>\<open>get_tax_brackets\<close> reads the year, then returns the table or raises;
  \<open>__init__\<close> assigns the year, calls it and assigns what it returns.\<close>

definition get_tax_brackets_call :: "bracket list action" where
  "get_tax_brackets_call =
     and_then (attr year) (\<lambda>y.
       case get_tax_brackets y of Inl e \<Rightarrow> raise e | Inr bs \<Rightarrow> result bs)"

definition init_call :: "int \<Rightarrow> unit action" where
  "init_call y =
     and_then (assign_year y) (\<lambda>_.
     and_then get_tax_brackets_call (\<lambda>bs.
       assign_tax_brackets bs))"

text \<open>\<open>calculate_tax\<close> reads the brackets and loops over them with local variables
  only; \<open>calculate_tax_reduction\<close> reads the year in its \<open>if\<close> and again in its
  \<open>elif\<close>; \<open>calculate_total_tax\<close> calls the two, one after the other.\<close>

definition calculate_tax_call :: "real \<Rightarrow> real action" where
  "calculate_tax_call income =
     and_then (attr tax_brackets) (\<lambda>brackets. result (tax_loop income 0 brackets))"

definition calculate_tax_reduction_call :: "real \<Rightarrow> real action" where
  "calculate_tax_reduction_call income =
     and_then (attr year) (\<lambda>y.
       if y = 2023 then
         (let reduction_rate = 0.165; reduction_threshold = 16143
          in if income \<le> reduction_threshold then result (income * reduction_rate)
             else result (reduction_threshold * reduction_rate))
       else and_then (attr year) (\<lambda>y.
         if y = 2024 then
           (let reduction_rate = 0.165; reduction_threshold = 16400
            in if income \<le> reduction_threshold then result (income * reduction_rate)
               else result (reduction_threshold * reduction_rate))
         else raise (ValueError ''Year not supported'')))"

definition calculate_total_tax_call :: "real \<Rightarrow> real action" where
  "calculate_total_tax_call income =
     and_then (calculate_tax_call income) (\<lambda>tax.
     and_then (calculate_tax_reduction_call income) (\<lambda>reduction.
       result (tax - reduction)))"

text \<open>A call of one of the three calculation methods, and a sequence of calls on one
  object, each on the object that the previous call left.\<close>

datatype call = Calculate_tax real | Calculate_tax_reduction real | Calculate_total_tax real

fun invoke :: "call \<Rightarrow> real action" where
  "invoke (Calculate_tax income) = calculate_tax_call income"
| "invoke (Calculate_tax_reduction income) = calculate_tax_reduction_call income"
| "invoke (Calculate_total_tax income) = calculate_total_tax_call income"

fun run :: "call list \<Rightarrow> calculator \<Rightarrow> (py_error + real) list \<times> calculator" where
  "run [] self = ([], self)"
| "run (k # ks) self =
     (let (r, self') = invoke k self; (rs, self'') = run ks self' in (r # rs, self''))"

subsection \<open>The rules of the specification\<close>

text \<open>
  Progressive bracket evaluation as the specification words it: the sum of
  \<open>rate * (min(x, upper) - lower)\<close> over the brackets whose lower bound is below \<open>x\<close>.
\<close>

definition bracket_sum :: "bracket list \<Rightarrow> real \<Rightarrow> real" where
  "bracket_sum bs x =
     (\<Sum>b \<leftarrow> filter (\<lambda>b. min_b b < x) bs. rate b * (min_bound x (max_b b) - min_b b))"

text \<open>
  An ordered table without overlap: the lower bounds increase strictly, each bracket ends
  where the next one begins, and the last bracket has no upper bound.
\<close>

fun ordered_brackets :: "bracket list \<Rightarrow> bool" where
  "ordered_brackets [] = False"
| "ordered_brackets [b] = (max_b b = PosInf)"
| "ordered_brackets (b # c # bs) =
     (min_b b < min_b c \<and> max_b b = Fin (min_b c) \<and> ordered_brackets (c # bs))"

fun le_bound :: "real \<Rightarrow> bound \<Rightarrow> bool" where
  "le_bound x (Fin u) = (x \<le> u)"
| "le_bound x PosInf = True"

definition sound_bracket :: "bracket \<Rightarrow> bool" where
  "sound_bracket b = (0 \<le> rate b \<and> le_bound (min_b b) (max_b b))"

text \<open>The linear phase-out rule of the specification.\<close>

definition phase_out :: "real \<Rightarrow> real \<Rightarrow> real \<Rightarrow> real \<Rightarrow> real" where
  "phase_out base_amount reduction_rate threshold income =
     max 0 (base_amount - reduction_rate * max 0 (income - threshold))"

section \<open>The calculator in double arithmetic\<close>

text \<open>
  Python floats are IEEE binary64 numbers. A finite double is an integer mantissa times a
  power of two, \<open>m * 2^e\<close> with \<open>|m| < 2^53\<close> and \<open>-1074 \<le> e \<le> 971\<close>; an
  operation returns the double nearest to the exact result, ties going to the even
  mantissa. The exact result of a product, sum or difference of two such numbers is again
  an integer times a power of two, so all of it is integer arithmetic. An income here is a
  finite double, which includes every Python int below \<open>2^53\<close>. The rates are below 1,
  so no result is larger than the income in magnitude and none overflows.
\<close>

datatype double = Double int int

fun val :: "double \<Rightarrow> real" where
  "val (Double m e) = real_of_int m * 2 powr real_of_int e"

fun exponent :: "double \<Rightarrow> int" where
  "exponent (Double m e) = e"

definition is_double :: "double \<Rightarrow> bool" where
  "is_double d = (case d of Double m e \<Rightarrow> \<bar>m\<bar> < 2 ^ 53 \<and> - 1074 \<le> e \<and> e \<le> 971)"

text \<open>\<open>rne m k\<close> is \<open>m / 2^k\<close> rounded to the nearest integer, ties to even.
  \<open>nearest_double m e\<close> is the double nearest to \<open>m * 2^e\<close>: it keeps 53 bits of
  the mantissa, fewer when the exponent would fall below \<open>-1074\<close> (gradual underflow).\<close>

definition rne :: "int \<Rightarrow> nat \<Rightarrow> int" where
  "rne m k =
     (let q = m div 2 ^ k; r = m mod 2 ^ k
      in if 2 * r < 2 ^ k then q
         else if 2 ^ k < 2 * r then q + 1
         else if even q then q else q + 1)"

definition nearest_double :: "int \<Rightarrow> int \<Rightarrow> double" where
  "nearest_double m e =
     (let k = max (bitlen \<bar>m\<bar> - 53) (- 1074 - e)
      in if k \<le> 0 then Double m e else Double (rne m (nat k)) (e + k))"

text \<open>\<open>scaled a e0\<close> is the mantissa of \<open>a\<close> at the exponent \<open>e0\<close>, for an
  \<open>e0\<close> that is at most the exponent of \<open>a\<close>.\<close>

fun scaled :: "double \<Rightarrow> int \<Rightarrow> int" where
  "scaled (Double m e) e0 = m * 2 ^ nat (e - e0)"

definition mul_double :: "double \<Rightarrow> double \<Rightarrow> double" where
  "mul_double a b =
     (case a of Double m1 e1 \<Rightarrow> case b of Double m2 e2 \<Rightarrow> nearest_double (m1 * m2) (e1 + e2))"

definition add_double :: "double \<Rightarrow> double \<Rightarrow> double" where
  "add_double a b =
     (let e0 = min (exponent a) (exponent b)
      in nearest_double (scaled a e0 + scaled b e0) e0)"

definition sub_double :: "double \<Rightarrow> double \<Rightarrow> double" where
  "sub_double a b =
     (let e0 = min (exponent a) (exponent b)
      in nearest_double (scaled a e0 - scaled b e0) e0)"

definition lt_double :: "double \<Rightarrow> double \<Rightarrow> bool" where
  "lt_double a b =
     (let e0 = min (exponent a) (exponent b) in scaled a e0 < scaled b e0)"

definition le_double :: "double \<Rightarrow> double \<Rightarrow> bool" where
  "le_double a b =
     (let e0 = min (exponent a) (exponent b) in scaled a e0 \<le> scaled b e0)"

text \<open>A Python int in an operation with a float is converted to a float; the integer
  literals of the source are far below \<open>2^53\<close>, where the conversion is exact. A float
  literal is the double nearest to the decimal written.\<close>

definition int_double :: "int \<Rightarrow> double" where
  "int_double n = Double n 0"

definition literal_0_15 :: double where
  "literal_0_15 = Double 5404319552844595 (- 55)"

definition literal_0_20 :: double where
  "literal_0_20 = Double 7205759403792794 (- 55)"

definition literal_0_24 :: double where
  "literal_0_24 = Double 8646911284551352 (- 55)"

definition literal_0_2575 :: double where
  "literal_0_2575 = Double 4638707616191611 (- 54)"

definition literal_0_165 :: double where
  "literal_0_165 = Double 5944751508129055 (- 55)"

datatype bound_double = Fin_double double | PosInf_double

fun min_bound_double :: "double \<Rightarrow> bound_double \<Rightarrow> double" where
  "min_bound_double x (Fin_double u) = (if lt_double u x then u else x)"
| "min_bound_double x PosInf_double = x"

record bracket_double =
  min_d :: double
  max_d :: bound_double
  rate_d :: double

record calculator_double =
  year_d :: int
  tax_brackets_d :: "bracket_double list"

definition get_tax_brackets_double :: "int \<Rightarrow> py_error + bracket_double list" where
  "get_tax_brackets_double y =
     (if y = 2023 then Inr
        [\<lparr>min_d = int_double 0, max_d = Fin_double (int_double 46295), rate_d = literal_0_15\<rparr>,
         \<lparr>min_d = int_double 46295, max_d = Fin_double (int_double 92580), rate_d = literal_0_20\<rparr>,
         \<lparr>min_d = int_double 92580, max_d = Fin_double (int_double 112655), rate_d = literal_0_24\<rparr>,
         \<lparr>min_d = int_double 112655, max_d = PosInf_double, rate_d = literal_0_2575\<rparr>]
      else if y = 2024 then Inr
        [\<lparr>min_d = int_double 0, max_d = Fin_double (int_double 47000), rate_d = literal_0_15\<rparr>,
         \<lparr>min_d = int_double 47000, max_d = Fin_double (int_double 94000), rate_d = literal_0_20\<rparr>,
         \<lparr>min_d = int_double 94000, max_d = Fin_double (int_double 114000), rate_d = literal_0_24\<rparr>,
         \<lparr>min_d = int_double 114000, max_d = PosInf_double, rate_d = literal_0_2575\<rparr>]
      else Inl (ValueError ''Year not supported''))"

definition init_double :: "int \<Rightarrow> py_error + calculator_double" where
  "init_double y =
     (case get_tax_brackets_double y of
        Inl e \<Rightarrow> Inl e
      | Inr bs \<Rightarrow> Inr \<lparr>year_d = y, tax_brackets_d = bs\<rparr>)"

definition tax_step_double :: "double \<Rightarrow> double \<Rightarrow> bracket_double \<Rightarrow> double" where
  "tax_step_double income tax b =
     (if lt_double (min_d b) income
      then let taxable_amount = sub_double (min_bound_double income (max_d b)) (min_d b)
           in add_double tax (mul_double taxable_amount (rate_d b))
      else tax)"

fun tax_loop_double :: "double \<Rightarrow> double \<Rightarrow> bracket_double list \<Rightarrow> double" where
  "tax_loop_double income tax [] = tax"
| "tax_loop_double income tax (b # bs) =
     tax_loop_double income (tax_step_double income tax b) bs"

definition calculate_tax_double :: "calculator_double \<Rightarrow> double \<Rightarrow> double" where
  "calculate_tax_double self income = tax_loop_double income (int_double 0) (tax_brackets_d self)"

definition calculate_tax_reduction_double ::
  "calculator_double \<Rightarrow> double \<Rightarrow> py_error + double" where
  "calculate_tax_reduction_double self income =
     (if year_d self = 2023 then
        (let reduction_rate = literal_0_165; reduction_threshold = int_double 16143
         in if le_double income reduction_threshold
            then Inr (mul_double income reduction_rate)
            else Inr (mul_double reduction_threshold reduction_rate))
      else if year_d self = 2024 then
        (let reduction_rate = literal_0_165; reduction_threshold = int_double 16400
         in if le_double income reduction_threshold
            then Inr (mul_double income reduction_rate)
            else Inr (mul_double reduction_threshold reduction_rate))
      else Inl (ValueError ''Year not supported''))"

definition calculate_total_tax_double ::
  "calculator_double \<Rightarrow> double \<Rightarrow> py_error + double" where
  "calculate_total_tax_double self income =
     (let tax = calculate_tax_double self income
      in case calculate_tax_reduction_double self income of
           Inl e \<Rightarrow> Inl e
         | Inr reduction \<Rightarrow> Inr (sub_double tax reduction))"

text \<open>A bracket of the double table is the bracket of the real table, its rate rounded.\<close>

definition bracket_matches :: "bracket_double \<Rightarrow> bracket \<Rightarrow> bool" where
  "bracket_matches d r =
     (val (min_d d) = min_b r
    \<and> (case max_d d of
         Fin_double u \<Rightarrow> max_b r = Fin (val u)
       | PosInf_double \<Rightarrow> max_b r = PosInf)
    \<and> \<bar>val (rate_d d) - rate r\<bar> < 2 powr (- 55))"

section \<open>The test-case generator\<close>

text \<open>
  \<open>generate_test_cases\<close> builds a list of dictionaries from draws of Python's global
  random generator. A dictionary is an association list in insertion order; a value is an
  integer or a string. A string is the list of its code points, all below 256 in this
  function (the only letter outside ASCII is \<open>e\<close> with acute accent, code point
  \<open>0xE9\<close>).
\<close>

datatype pyval = PInt int | PStr string

type_synonym pydict = "(string \<times> pyval) list"

text \<open>
  A computation that reads and advances the state of the random generator and may raise.
  The generator itself belongs to Python's library: its state is a type parameter, and
  \<open>randbelow s n\<close> stands for \<open>Random._randbelow(n)\<close> in state \<open>s\<close>, giving the
  number drawn and the next state.
\<close>

type_synonym ('a, 's) rand = "'s \<Rightarrow> py_error + 'a \<times> 's"

definition return :: "'a \<Rightarrow> ('a, 's) rand" where
  "return a s = Inr (a, s)"

definition bind :: "('a, 's) rand \<Rightarrow> ('a \<Rightarrow> ('b, 's) rand) \<Rightarrow> ('b, 's) rand" where
  "bind m f s = (case m s of Inl e \<Rightarrow> Inl e | Inr (a, s') \<Rightarrow> f a s')"

text \<open>\<open>random.choice(seq)\<close>: raises on an empty sequence, else returns
  \<open>seq[_randbelow(len(seq))]\<close>, and indexing out of range raises.\<close>

definition choice :: "('s \<Rightarrow> nat \<Rightarrow> nat \<times> 's) \<Rightarrow> 'a list \<Rightarrow> ('a, 's) rand" where
  "choice randbelow seq s =
     (if length seq = 0 then Inl IndexError
      else let (i, s') = randbelow s (length seq)
           in if i < length seq then Inr (seq ! i, s')
              else Inl IndexError)"

text \<open>\<open>str.lower()\<close> on code points below 256: the ASCII capitals and the Latin-1
  capitals \<open>0xC0\<close> to \<open>0xDE\<close>, the multiplication sign \<open>0xD7\<close> apart, move up by 32.\<close>

definition lower_char :: "char \<Rightarrow> char" where
  "lower_char c =
     (let n = of_char c :: nat
      in if (65 \<le> n \<and> n \<le> 90) \<or> (192 \<le> n \<and> n \<le> 222 \<and> n \<noteq> 215)
         then char_of (n + 32) else c)"

definition lower :: "string \<Rightarrow> string" where
  "lower s = map lower_char s"

text \<open>\<open>sub in s\<close> on strings: \<open>sub\<close> occurs in \<open>s\<close> as a contiguous piece.\<close>

fun str_in :: "string \<Rightarrow> string \<Rightarrow> bool" where
  "str_in sub [] = (sub = [])"
| "str_in sub (c # cs) = (prefix sub (c # cs) \<or> str_in sub cs)"

text \<open>\<open>str(i)\<close>, used by the f-strings that name the keys of a child.\<close>

fun str_nat :: "nat \<Rightarrow> string" where
  "str_nat n =
     (if n < 10 then [char_of (48 + n)]
      else str_nat (n div 10) @ [char_of (48 + n mod 10)])"

definition str :: "int \<Rightarrow> string" where
  "str i = (if i < 0 then CHR ''-'' # str_nat (nat (- i)) else str_nat (nat i))"

text \<open>\<open>range(a, b)\<close> as the list of its elements.\<close>

definition range_py :: "int \<Rightarrow> int \<Rightarrow> int list" where
  "range_py a b = [a..b - 1]"

subsection \<open>The candidate lists\<close>

definition situations :: "string list" where
  "situations =
     [''Personne vivant seule'',
      ''Famille monoparentale'',
      ''Couple'',
      ''Retrait'' @ CHR 0xE9 # '' vivant seul'',
      ''Couple de retrait'' @ CHR 0xE9 # ''s'']"

definition revenus :: "int list" where
  "revenus = [0, 15000, 30000, 45000, 60000, 75000, 90000]"

definition ages_travailleur :: "int list" where
  "ages_travailleur = [25, 35, 45, 55]"

definition ages_retraite :: "int list" where
  "ages_retraite = [65, 75, 85]"

definition ages_enfant :: "int list" where
  "ages_enfant = [2, 5, 10, 15]"

definition nb_enfants :: "int list" where
  "nb_enfants = range_py 0 4"

definition frais_garde :: "int list" where
  "frais_garde = [0, 8000, 15000]"

definition types_garde :: "string list" where
  "types_garde = [''Subventionn'' @ CHR 0xE9 # ''e'', ''Non subventionn'' @ CHR 0xE9 # ''e'']"

subsection \<open>One case\<close>

text \<open>The three flags computed from the situation drawn.\<close>

definition est_retraite :: "string \<Rightarrow> bool" where
  "est_retraite situation = str_in (''retrait'' @ [CHR 0xE9]) (lower situation)"

definition est_couple :: "string \<Rightarrow> bool" where
  "est_couple situation = str_in ''Couple'' situation"

definition peut_avoir_enfants :: "string \<Rightarrow> bool" where
  "peut_avoir_enfants situation =
     (\<not> est_retraite situation \<and> situation \<noteq> ''Personne vivant seule'')"

text \<open>The body of the loop over the children, for child number \<open>i\<close>.\<close>

definition child :: "('s \<Rightarrow> nat \<Rightarrow> nat \<times> 's) \<Rightarrow> int \<Rightarrow> pydict \<Rightarrow> (pydict, 's) rand" where
  "child randbelow i case0 =
     bind (choice randbelow ages_enfant) (\<lambda>age_enfant.
       let case1 = AList.update (''age_enfant'' @ str i) (PInt age_enfant) case0
       in if age_enfant \<le> 5 then
            bind (choice randbelow frais_garde) (\<lambda>frais.
              let case2 = AList.update (''frais'' @ str i) (PInt frais) case1
              in bind (choice randbelow types_garde) (\<lambda>type_garde.
                   return (AList.update (''type_garde'' @ str i) (PStr type_garde) case2)))
          else
            return (AList.update (''type_garde'' @ str i)
                      (PStr (''Subventionn'' @ CHR 0xE9 # ''e''))
                      (AList.update (''frais'' @ str i) (PInt 0) case1)))"

fun children :: "('s \<Rightarrow> nat \<Rightarrow> nat \<times> 's) \<Rightarrow> int list \<Rightarrow> pydict \<Rightarrow> (pydict, 's) rand" where
  "children randbelow [] case0 = return case0"
| "children randbelow (i # is) case0 =
     bind (child randbelow i case0) (children randbelow is)"

text \<open>The body of the outer loop: the draws happen in the order in which the dictionary
  display evaluates its values.\<close>

definition make_case :: "('s \<Rightarrow> nat \<Rightarrow> nat \<times> 's) \<Rightarrow> (pydict, 's) rand" where
  "make_case randbelow =
     bind (choice randbelow situations) (\<lambda>situation.
     bind (choice randbelow revenus) (\<lambda>revenu1.
     bind (choice randbelow
             (if est_retraite situation then ages_retraite else ages_travailleur)) (\<lambda>age1.
     bind (if est_couple situation then choice randbelow revenus else return 0) (\<lambda>revenu2.
     bind (if est_couple situation
           then choice randbelow
                  (if est_retraite situation then ages_retraite else ages_travailleur)
           else return 0) (\<lambda>age2.
       let case0 =
         [(''situation'', PStr situation),
          (''revenu1'', PInt revenu1),
          (''age1'', PInt age1),
          (''revenu2'', PInt revenu2),
          (''age2'', PInt age2),
          (''nb_enfants'', PInt 0)]
       in if peut_avoir_enfants situation then
            bind (choice randbelow nb_enfants) (\<lambda>n.
              children randbelow (range_py 1 (n + 1))
                (AList.update ''nb_enfants'' (PInt n) case0))
          else return case0)))))"

subsection \<open>The list of cases\<close>

fun cases_loop ::
  "('s \<Rightarrow> nat \<Rightarrow> nat \<times> 's) \<Rightarrow> nat \<Rightarrow> pydict list \<Rightarrow> (pydict list, 's) rand" where
  "cases_loop randbelow 0 test_cases = return test_cases"
| "cases_loop randbelow (Suc k) test_cases =
     bind (make_case randbelow) (\<lambda>case0. cases_loop randbelow k (test_cases @ [case0]))"

text \<open>\<open>range(nobs)\<close> is empty for a negative \<open>nobs\<close>.\<close>

definition generate_test_cases ::
  "('s \<Rightarrow> nat \<Rightarrow> nat \<times> 's) \<Rightarrow> int \<Rightarrow> (pydict list, 's) rand" where
  "generate_test_cases randbelow nobs = cases_loop randbelow (nat nobs) []"

text \<open>A random source that replays a given list of draws, each reduced below the bound
  asked for; it runs the generator on concrete draws.\<close>

fun replay :: "nat list \<Rightarrow> nat \<Rightarrow> nat \<times> nat list" where
  "replay [] n = (0, [])"
| "replay (k # ks) n = (k mod n, ks)"


subsection \<open>Predicates on computations and on cases\<close>

text \<open>Every result of \<open>m\<close> satisfies \<open>P\<close>; \<open>m\<close> raises in no state.\<close>

definition post :: "('a, 's) rand \<Rightarrow> ('a \<Rightarrow> bool) \<Rightarrow> bool" where
  "post m P = (\<forall>s a s'. m s = Inr (a, s') \<longrightarrow> P a)"


definition subv :: string where
  "subv = ''Subventionn'' @ CHR 0xE9 # ''e''"

definition child_key :: "string \<Rightarrow> bool" where
  "child_key k =
     (\<exists>sfx. k = ''age_enfant'' @ sfx \<or> k = ''frais'' @ sfx \<or> k = ''type_garde'' @ sfx)"

text \<open>The attributes of the children agree, for every suffix of the three keys: an age
  above 5 comes with the fee 0 and the subsidised type, and another fee or type comes
  with an age of at most 5.\<close>

definition child_ok :: "(string \<rightharpoonup> pyval) \<Rightarrow> bool" where
  "child_ok m = (\<forall>sfx.
      (\<forall>a. m (''age_enfant'' @ sfx) = Some (PInt a) \<longrightarrow> 5 < a \<longrightarrow>
         m (''frais'' @ sfx) = Some (PInt 0) \<and> m (''type_garde'' @ sfx) = Some (PStr subv))
    \<and> (\<forall>v. m (''frais'' @ sfx) = Some v \<longrightarrow> v \<noteq> PInt 0 \<longrightarrow>
         (\<exists>a. a \<le> 5 \<and> m (''age_enfant'' @ sfx) = Some (PInt a)))
    \<and> (\<forall>v. m (''type_garde'' @ sfx) = Some v \<longrightarrow> v \<noteq> PStr subv \<longrightarrow>
         (\<exists>a. a \<le> 5 \<and> m (''age_enfant'' @ sfx) = Some (PInt a))))"

definition base_keys :: "string list" where
  "base_keys = [''situation'', ''revenu1'', ''age1'', ''revenu2'', ''age2'', ''nb_enfants'']"

definition ages_adulte :: "string \<Rightarrow> int list" where
  "ages_adulte situation = (if est_retraite situation then ages_retraite else ages_travailleur)"

definition case_ok :: "pydict \<Rightarrow> bool" where
  "case_ok c = (\<exists>sit r1 a1 r2 a2 n.
       map_of c ''situation'' = Some (PStr sit) \<and> sit \<in> set situations
     \<and> map_of c ''revenu1'' = Some (PInt r1) \<and> r1 \<in> set revenus
     \<and> map_of c ''age1'' = Some (PInt a1) \<and> a1 \<in> set (ages_adulte sit)
     \<and> map_of c ''revenu2'' = Some (PInt r2)
     \<and> map_of c ''age2'' = Some (PInt a2)
     \<and> (if est_couple sit then r2 \<in> set revenus \<and> a2 \<in> set (ages_adulte sit)
         else r2 = 0 \<and> a2 = 0)
     \<and> map_of c ''nb_enfants'' = Some (PInt n)
     \<and> (\<not> peut_avoir_enfants sit \<longrightarrow> n = 0 \<and> map fst c = base_keys)
     \<and> child_ok (map_of c))"



section \<open>Properties of the calculator\<close>

subsection \<open>The objects that the constructor builds\<close>

lemma init_2023:
  "init 2023 = Inr \<lparr>year = 2023, tax_brackets =
        [\<lparr>min_b = 0, max_b = Fin 46295, rate = 0.15\<rparr>,
         \<lparr>min_b = 46295, max_b = Fin 92580, rate = 0.20\<rparr>,
         \<lparr>min_b = 92580, max_b = Fin 112655, rate = 0.24\<rparr>,
         \<lparr>min_b = 112655, max_b = PosInf, rate = 0.2575\<rparr>]\<rparr>"
  by (simp add: init_def get_tax_brackets_def)

lemma init_2024:
  "init 2024 = Inr \<lparr>year = 2024, tax_brackets =
        [\<lparr>min_b = 0, max_b = Fin 47000, rate = 0.15\<rparr>,
         \<lparr>min_b = 47000, max_b = Fin 94000, rate = 0.20\<rparr>,
         \<lparr>min_b = 94000, max_b = Fin 114000, rate = 0.24\<rparr>,
         \<lparr>min_b = 114000, max_b = PosInf, rate = 0.2575\<rparr>]\<rparr>"
  by (simp add: init_def get_tax_brackets_def)

lemma init_cases:
  assumes "init y = Inr c"
  obtains "y = 2023" "c = \<lparr>year = 2023, tax_brackets =
        [\<lparr>min_b = 0, max_b = Fin 46295, rate = 0.15\<rparr>,
         \<lparr>min_b = 46295, max_b = Fin 92580, rate = 0.20\<rparr>,
         \<lparr>min_b = 92580, max_b = Fin 112655, rate = 0.24\<rparr>,
         \<lparr>min_b = 112655, max_b = PosInf, rate = 0.2575\<rparr>]\<rparr>"
  | "y = 2024" "c = \<lparr>year = 2024, tax_brackets =
        [\<lparr>min_b = 0, max_b = Fin 47000, rate = 0.15\<rparr>,
         \<lparr>min_b = 47000, max_b = Fin 94000, rate = 0.20\<rparr>,
         \<lparr>min_b = 94000, max_b = Fin 114000, rate = 0.24\<rparr>,
         \<lparr>min_b = 114000, max_b = PosInf, rate = 0.2575\<rparr>]\<rparr>"
  using assms by (auto simp: init_def get_tax_brackets_def split: if_splits)

lemma init_sound:
  assumes "init y = Inr c"
  shows "\<forall>b \<in> set (tax_brackets c). sound_bracket b"
  using assms by (rule init_cases) (simp_all add: sound_bracket_def)

subsection \<open>The loop over the brackets\<close>

lemma tax_loop_bracket_sum: "tax_loop x acc bs = acc + bracket_sum bs x"
  by (induction bs arbitrary: acc)
     (simp_all add: bracket_sum_def tax_step_def Let_def algebra_simps)

lemma tax_step_acc: "tax_step x acc b = acc + tax_step x 0 b"
  by (simp add: tax_step_def)

lemma tax_loop_acc: "tax_loop x acc bs = acc + (\<Sum>b\<leftarrow>bs. tax_step x 0 b)"
proof (induction bs arbitrary: acc)
  case Nil
  show ?case by simp
next
  case (Cons b bs)
  show ?case
    using Cons.IH [of "tax_step x acc b"] tax_step_acc [of x acc b] by simp
qed

text \<open>On a bracket whose bounds are in order, the step adds the rate times the part of
  the income inside the bracket.\<close>

lemma tax_step_clamp:
  assumes "sound_bracket b"
  shows "tax_step x 0 b =
    rate b * max 0 ((case max_b b of Fin u \<Rightarrow> min x u | PosInf \<Rightarrow> x) - min_b b)"
  using assms by (cases "max_b b") (auto simp: tax_step_def sound_bracket_def)

lemma tax_step_mono:
  assumes "sound_bracket b" and "x \<le> x'"
  shows "tax_step x 0 b \<le> tax_step x' 0 b"
proof -
  have "max 0 ((case max_b b of Fin u \<Rightarrow> min x u | PosInf \<Rightarrow> x) - min_b b)
      \<le> max 0 ((case max_b b of Fin u \<Rightarrow> min x' u | PosInf \<Rightarrow> x') - min_b b)"
    using assms(2) by (cases "max_b b") auto
  then show ?thesis
    using assms(1) by (simp add: tax_step_clamp sound_bracket_def mult_left_mono)
qed

lemma tax_step_continuous:
  assumes "sound_bracket b"
  shows "continuous_on S (\<lambda>x. tax_step x 0 b)"
proof -
  have "continuous_on S
      (\<lambda>x. rate b * max 0 ((case max_b b of Fin u \<Rightarrow> min x u | PosInf \<Rightarrow> x) - min_b b))"
    by (cases "max_b b") (auto intro!: continuous_intros)
  then show ?thesis
    using assms by (simp add: tax_step_clamp)
qed

lemma tax_loop_mono:
  assumes "\<forall>b \<in> set bs. sound_bracket b" and "x \<le> x'"
  shows "tax_loop x 0 bs \<le> tax_loop x' 0 bs"
  using assms by (simp add: tax_loop_acc sum_list_mono tax_step_mono)

lemma sum_list_continuous:
  fixes f :: "real \<Rightarrow> 'b \<Rightarrow> real"
  assumes "\<forall>b \<in> set bs. continuous_on S (\<lambda>x. f x b)"
  shows "continuous_on S (\<lambda>x. \<Sum>b\<leftarrow>bs. f x b)"
  using assms
proof (induction bs)
  case Nil
  show ?case by simp
next
  case (Cons b bs)
  have "continuous_on S (\<lambda>x. f x b)"
    using Cons.prems by auto
  moreover have "continuous_on S (\<lambda>x. \<Sum>b\<leftarrow>bs. f x b)"
    using Cons.IH Cons.prems by auto
  ultimately have "continuous_on S (\<lambda>x. f x b + (\<Sum>b\<leftarrow>bs. f x b))"
    by (rule continuous_on_add)
  then show ?case by simp
qed

lemma tax_loop_continuous:
  assumes "\<forall>b \<in> set bs. sound_bracket b"
  shows "continuous_on S (\<lambda>x. tax_loop x 0 bs)"
  using assms by (simp add: tax_loop_acc sum_list_continuous tax_step_continuous)

lemma init_linear:
  assumes "init y = Inr c" and "b \<in> set (tax_brackets c)"
    and "min_b b \<le> x" and "x \<le> x'" and "le_bound x' (max_b b)"
  shows "calculate_tax c x' - calculate_tax c x = rate b * (x' - x)"
  using assms(1)
proof (rule init_cases)
  assume "y = 2023" and c: "c = \<lparr>year = 2023, tax_brackets =
        [\<lparr>min_b = 0, max_b = Fin 46295, rate = 0.15\<rparr>,
         \<lparr>min_b = 46295, max_b = Fin 92580, rate = 0.20\<rparr>,
         \<lparr>min_b = 92580, max_b = Fin 112655, rate = 0.24\<rparr>,
         \<lparr>min_b = 112655, max_b = PosInf, rate = 0.2575\<rparr>]\<rparr>"
  from assms(2-) show ?thesis
    unfolding c calculate_tax_def by (auto simp: tax_step_def diff_divide_distrib)
next
  assume "y = 2024" and c: "c = \<lparr>year = 2024, tax_brackets =
        [\<lparr>min_b = 0, max_b = Fin 47000, rate = 0.15\<rparr>,
         \<lparr>min_b = 47000, max_b = Fin 94000, rate = 0.20\<rparr>,
         \<lparr>min_b = 94000, max_b = Fin 114000, rate = 0.24\<rparr>,
         \<lparr>min_b = 114000, max_b = PosInf, rate = 0.2575\<rparr>]\<rparr>"
  from assms(2-) show ?thesis
    unfolding c calculate_tax_def by (auto simp: tax_step_def diff_divide_distrib)
qed

lemma reduction_supported:
  assumes "year c = 2023 \<or> year c = 2024"
  shows "\<exists>r. calculate_tax_reduction c income = Inr r"
proof -
  have "calculate_tax_reduction c income =
      Inr (0.165 * min income (if year c = 2023 then 16143 else 16400))"
    using assms by (auto simp: calculate_tax_reduction_def min_def)
  then show ?thesis ..
qed

subsection \<open>Sequences of calls\<close>

text \<open>Each calculation method returns what its function of the first embedding returns,
  and the object unchanged; \<open>__init__\<close> builds the object of \<open>init\<close>, and run on
  an object built for another year it changes that object.\<close>

lemma calculate_tax_call_eq:
  "calculate_tax_call income self = (Inr (calculate_tax self income), self)"
  by (simp add: calculate_tax_call_def and_then_def attr_def result_def calculate_tax_def)

lemma calculate_tax_reduction_call_eq:
  "calculate_tax_reduction_call income self = (calculate_tax_reduction self income, self)"
  by (simp add: calculate_tax_reduction_call_def calculate_tax_reduction_def and_then_def
      attr_def result_def raise_def Let_def)

lemma calculate_total_tax_call_eq:
  "calculate_total_tax_call income self = (calculate_total_tax self income, self)"
  by (cases "calculate_tax_reduction self income")
     (simp_all add: calculate_total_tax_call_def calculate_total_tax_def and_then_def
        calculate_tax_call_eq calculate_tax_reduction_call_eq result_def)

lemma init_call_eq:
  "init_call y self =
     (case get_tax_brackets y of
        Inl e \<Rightarrow> (Inl e, self\<lparr>year := y\<rparr>)
      | Inr bs \<Rightarrow> (Inr (), \<lparr>year = y, tax_brackets = bs\<rparr>))"
  by (cases "get_tax_brackets y")
     (simp_all add: init_call_def get_tax_brackets_call_def and_then_def assign_year_def
        assign_tax_brackets_def attr_def raise_def result_def)

lemma init_call_init: "init_call y self = (Inr (), c) \<longleftrightarrow> init y = Inr c"
  by (cases "get_tax_brackets y") (auto simp: init_call_eq init_def)

lemma init_call_changes_state:
  "\<exists>c. init 2023 = Inr c \<and> snd (init_call 2024 c) \<noteq> c"
  by (simp add: init_2023 init_call_eq get_tax_brackets_def)

lemma invoke_state: "snd (invoke k self) = self"
  by (cases k)
     (simp_all add: calculate_tax_call_eq calculate_tax_reduction_call_eq
        calculate_total_tax_call_eq)

lemma run_state: "run ks self = (map (\<lambda>k. fst (invoke k self)) ks, self)"
proof (induction ks)
  case Nil
  show ?case by simp
next
  case (Cons k ks)
  obtain r where "invoke k self = (r, self)"
    using invoke_state [of k self] by (cases "invoke k self") simp
  with Cons show ?case by simp
qed

lemma invoke_returns:
  assumes "init y = Inr c"
  shows "\<exists>r. invoke k c = (Inr r, c)"
proof -
  have y: "year c = 2023 \<or> year c = 2024"
    using assms by (rule init_cases) simp_all
  show ?thesis
  proof (cases k)
    case (Calculate_tax x)
    then show ?thesis by (simp add: calculate_tax_call_eq)
  next
    case (Calculate_tax_reduction x)
    with reduction_supported [OF y, of x] show ?thesis
      by (auto simp: calculate_tax_reduction_call_eq)
  next
    case (Calculate_total_tax x)
    with reduction_supported [OF y, of x] show ?thesis
      by (auto simp: calculate_total_tax_call_eq calculate_total_tax_def)
  qed
qed

subsection \<open>The claims about the calculator\<close>

text \<open>
  C1. For a calculator built for a supported year and a non-negative income \<open>x\<close>,
  \<open>calculate_tax\<close> returns the progressive-bracket sum of the specification over the
  brackets of that year whose lower bound is strictly below \<open>x\<close>, and the table of the
  year is ordered, without overlap, with an unbounded top bracket.
\<close>

theorem calculate_tax_bracket_sum:
  assumes "init y = Inr c" and "0 \<le> x"
  shows "calculate_tax c x = bracket_sum (tax_brackets c) x
       \<and> ordered_brackets (tax_brackets c)"
proof
  show "calculate_tax c x = bracket_sum (tax_brackets c) x"
    by (simp add: calculate_tax_def tax_loop_bracket_sum)
  show "ordered_brackets (tax_brackets c)"
    using assms(1) by (rule init_cases) simp_all
qed

text \<open>At 50000 in 2023 both sides are \<open>0.15 * 46295 + 0.20 * 3705\<close>.\<close>

theorem calculate_tax_bracket_sum_witness:
  "\<exists>c. init 2023 = Inr c \<and> (0::real) \<le> 50000
      \<and> calculate_tax c 50000 = bracket_sum (tax_brackets c) 50000
      \<and> bracket_sum (tax_brackets c) 50000 = 7685.25
      \<and> ordered_brackets (tax_brackets c)"
proof -
  have "(0::real) \<le> 50000" by simp
  from calculate_tax_bracket_sum [OF init_2023 this] show ?thesis
    by (simp add: init_2023 bracket_sum_def)
qed

text \<open>
  C2, as the claim states it, fails. The claim: for some base amount of the year,
  \<open>calculate_tax_reduction\<close> is the phase-out
  \<open>max(0, base_amount - reduction_rate * max(0, income - threshold))\<close> at every
  non-negative income. The phase-out has the same value at the incomes 0 and 16143;
  the method returns 0 and \<open>16143 * 0.165\<close> there, so no base amount fits 2023.
\<close>

theorem tax_reduction_not_phase_out:
  "\<not> (\<exists>base_amount. \<forall>c income. init 2023 = Inr c \<longrightarrow> 0 \<le> income \<longrightarrow>
        calculate_tax_reduction c income = Inr (phase_out base_amount 0.165 16143 income))"
proof
  assume "\<exists>base_amount. \<forall>c income. init 2023 = Inr c \<longrightarrow> 0 \<le> income \<longrightarrow>
        calculate_tax_reduction c income = Inr (phase_out base_amount 0.165 16143 income)"
  then obtain base_amount where
    h: "\<And>c income. init 2023 = Inr c \<Longrightarrow> 0 \<le> income \<Longrightarrow>
        calculate_tax_reduction c income = Inr (phase_out base_amount 0.165 16143 income)"
    by blast
  obtain c where c: "init 2023 = Inr c" and y: "year c = 2023"
    by (simp add: init_def get_tax_brackets_def)
  have "calculate_tax_reduction c 0 = Inr (max 0 base_amount)"
    using h [OF c, of 0] by (simp add: phase_out_def)
  moreover have "calculate_tax_reduction c 16143 = Inr (max 0 base_amount)"
    using h [OF c, of 16143] by (simp add: phase_out_def)
  ultimately have "calculate_tax_reduction c 0 = calculate_tax_reduction c 16143"
    by simp
  then show False
    by (simp add: calculate_tax_reduction_def y)
qed

text \<open>
  C2, amended. For a calculator built for a supported year and a non-negative income,
  \<open>calculate_tax_reduction\<close> returns the reduction rate 0.165 times the smaller of the
  income and the threshold of the year (16143 for 2023, 16400 for 2024): the reduction
  grows with the income up to the threshold and stays constant above it. The amount is
  never negative.
\<close>

theorem tax_reduction_capped:
  assumes "init y = Inr c" and "0 \<le> income"
  shows "calculate_tax_reduction c income =
           Inr (0.165 * min income (if y = 2023 then 16143 else 16400))
       \<and> 0 \<le> 0.165 * min income (if y = 2023 then 16143 else 16400)"
  using assms(1)
  by (rule init_cases) (use assms(2) in \<open>auto simp: calculate_tax_reduction_def min_def\<close>)

theorem tax_reduction_capped_witness:
  "\<exists>c c'. init 2023 = Inr c \<and> init 2024 = Inr c'
      \<and> calculate_tax_reduction c 10000 = Inr 1650
      \<and> calculate_tax_reduction c' 20000 = Inr 2706"
proof -
  have "(0::real) \<le> 10000" and "(0::real) \<le> 20000" by simp_all
  from tax_reduction_capped [OF init_2023 this(1)] tax_reduction_capped [OF init_2024 this(2)]
  show ?thesis
    by (simp add: init_2023 init_2024)
qed

text \<open>
  C3. For a calculator built for a supported year, \<open>calculate_tax\<close> is non-decreasing
  on the non-negative incomes, continuous there, and linear with the slope of the bracket
  on every bracket, both ends of the bracket included: the value at a boundary is the
  one that the formula of either neighbouring bracket gives.
\<close>

theorem calculate_tax_monotone_continuous:
  assumes "init y = Inr c"
  shows "(\<forall>x x'. 0 \<le> x \<and> x \<le> x' \<longrightarrow> calculate_tax c x \<le> calculate_tax c x')
       \<and> continuous_on {0..} (calculate_tax c)
       \<and> (\<forall>b \<in> set (tax_brackets c). \<forall>x x'.
             min_b b \<le> x \<and> x \<le> x' \<and> le_bound x' (max_b b) \<longrightarrow>
             calculate_tax c x' - calculate_tax c x = rate b * (x' - x))"
proof (intro conjI)
  show "\<forall>x x'. 0 \<le> x \<and> x \<le> x' \<longrightarrow> calculate_tax c x \<le> calculate_tax c x'"
    using tax_loop_mono [OF init_sound [OF assms]] by (simp add: calculate_tax_def)
  have "continuous_on {0..} (\<lambda>x. tax_loop x 0 (tax_brackets c))"
    by (rule tax_loop_continuous [OF init_sound [OF assms]])
  moreover have "calculate_tax c = (\<lambda>x. tax_loop x 0 (tax_brackets c))"
    by (rule ext) (simp add: calculate_tax_def)
  ultimately show "continuous_on {0..} (calculate_tax c)"
    by simp
  show "\<forall>b \<in> set (tax_brackets c). \<forall>x x'.
          min_b b \<le> x \<and> x \<le> x' \<and> le_bound x' (max_b b) \<longrightarrow>
          calculate_tax c x' - calculate_tax c x = rate b * (x' - x)"
    using init_linear [OF assms] by blast
qed

text \<open>In 2023 the tax grows from 40000 to 50000, and between the boundary 46295 and
  50000 it grows at the rate 0.20 of the second bracket.\<close>

theorem calculate_tax_monotone_continuous_witness:
  "\<exists>c. init 2023 = Inr c
      \<and> calculate_tax c 40000 \<le> calculate_tax c 50000
      \<and> continuous_on {0..} (calculate_tax c)
      \<and> calculate_tax c 50000 - calculate_tax c 46295 = 0.20 * (50000 - 46295)"
proof -
  let ?c = "\<lparr>year = 2023, tax_brackets =
        [\<lparr>min_b = 0, max_b = Fin 46295, rate = 0.15\<rparr>,
         \<lparr>min_b = 46295, max_b = Fin 92580, rate = 0.20\<rparr>,
         \<lparr>min_b = 92580, max_b = Fin 112655, rate = 0.24\<rparr>,
         \<lparr>min_b = 112655, max_b = PosInf, rate = 0.2575\<rparr>]\<rparr>"
  let ?b = "\<lparr>min_b = 46295, max_b = Fin 92580, rate = 0.20\<rparr>"
  note t = calculate_tax_monotone_continuous [OF init_2023]
  have "calculate_tax ?c 40000 \<le> calculate_tax ?c 50000"
    using t [THEN conjunct1, rule_format, of 40000 50000] by simp
  moreover have "continuous_on {0..} (calculate_tax ?c)"
    using t [THEN conjunct2, THEN conjunct1] .
  moreover have "calculate_tax ?c 50000 - calculate_tax ?c 46295 = 0.20 * (50000 - 46295)"
    using t [THEN conjunct2, THEN conjunct2, rule_format, of ?b 46295 50000] by simp
  ultimately show ?thesis
    using init_2023 by blast
qed

text \<open>
  C4. On a calculator built for a supported year, a call of \<open>calculate_tax\<close>,
  \<open>calculate_tax_reduction\<close> or \<open>calculate_total_tax\<close> returns a number and leaves
  the object (year and brackets) as it was, and the same call made again, on the object
  that the first call left, returns the same number; any sequence of such calls leaves
  the object unchanged, and a call made after it returns what it returns on the object
  as built.
\<close>

theorem calls_deterministic_state_unchanged:
  assumes "init y = Inr c"
  shows "(\<exists>r. invoke k c = (Inr r, c) \<and> run [k, k] c = ([Inr r, Inr r], c))
       \<and> snd (run ks c) = c
       \<and> fst (run (ks @ [k]) c) = fst (run ks c) @ [fst (invoke k c)]"
proof -
  obtain r where "invoke k c = (Inr r, c)"
    using invoke_returns [OF assms] by blast
  then show ?thesis
    by (simp add: run_state)
qed

text \<open>At 10000 in 2023 the total is \<open>1500 - 1650\<close>, in exact and in double
  arithmetic alike.\<close>

theorem calls_deterministic_state_unchanged_witness:
  "\<exists>c. init 2023 = Inr c
      \<and> invoke (Calculate_total_tax 10000) c = (Inr (- 150), c)
      \<and> run [Calculate_total_tax 10000, Calculate_total_tax 10000] c =
          ([Inr (- 150), Inr (- 150)], c)
      \<and> snd (run [Calculate_tax 40000, Calculate_tax_reduction 10000] c) = c"
proof -
  let ?c = "\<lparr>year = 2023, tax_brackets =
        [\<lparr>min_b = 0, max_b = Fin 46295, rate = 0.15\<rparr>,
         \<lparr>min_b = 46295, max_b = Fin 92580, rate = 0.20\<rparr>,
         \<lparr>min_b = 92580, max_b = Fin 112655, rate = 0.24\<rparr>,
         \<lparr>min_b = 112655, max_b = PosInf, rate = 0.2575\<rparr>]\<rparr>"
  have v: "invoke (Calculate_total_tax 10000) ?c = (Inr (- 150), ?c)"
    by (simp add: calculate_total_tax_call_eq calculate_total_tax_def calculate_tax_def
        calculate_tax_reduction_def tax_step_def)
  from calls_deterministic_state_unchanged [OF init_2023, of "Calculate_total_tax 10000"
      "[Calculate_tax 40000, Calculate_tax_reduction 10000]"]
  have "run [Calculate_total_tax 10000, Calculate_total_tax 10000] ?c =
          ([Inr (- 150), Inr (- 150)], ?c)
      \<and> snd (run [Calculate_tax 40000, Calculate_tax_reduction 10000] ?c) = ?c"
    unfolding v by blast
  with v show ?thesis
    using init_2023 by blast
qed

text \<open>
  C5. For a year other than 2023 and 2024, \<open>get_tax_brackets\<close>, hence the constructor,
  and \<open>calculate_tax_reduction\<close> on an object whose year it is raise
  \<open>ValueError("Year not supported")\<close>; for 2023 and 2024 none of them raises.
\<close>

theorem unsupported_year:
  "(y \<noteq> 2023 \<and> y \<noteq> 2024 \<longrightarrow>
       get_tax_brackets y = Inl (ValueError ''Year not supported'')
     \<and> init y = Inl (ValueError ''Year not supported'')
     \<and> (\<forall>c income. year c = y \<longrightarrow>
          calculate_tax_reduction c income = Inl (ValueError ''Year not supported'')))
 \<and> (y = 2023 \<or> y = 2024 \<longrightarrow>
       (\<exists>bs. get_tax_brackets y = Inr bs)
     \<and> (\<exists>c. init y = Inr c)
     \<and> (\<forall>c income. year c = y \<longrightarrow> (\<exists>r. calculate_tax_reduction c income = Inr r)))"
proof (intro conjI impI allI)
  assume "y \<noteq> 2023 \<and> y \<noteq> 2024"
  then show "get_tax_brackets y = Inl (ValueError ''Year not supported'')"
    and "init y = Inl (ValueError ''Year not supported'')"
    by (simp_all add: get_tax_brackets_def init_def)
next
  fix c :: calculator and income :: real
  assume "y \<noteq> 2023 \<and> y \<noteq> 2024" and "year c = y"
  then show "calculate_tax_reduction c income = Inl (ValueError ''Year not supported'')"
    by (simp add: calculate_tax_reduction_def)
next
  assume "y = 2023 \<or> y = 2024"
  then show "\<exists>bs. get_tax_brackets y = Inr bs" and "\<exists>c. init y = Inr c"
    by (auto simp: get_tax_brackets_def init_def)
next
  fix c :: calculator and income :: real
  assume "y = 2023 \<or> y = 2024" and "year c = y"
  then show "\<exists>r. calculate_tax_reduction c income = Inr r"
    by (intro reduction_supported) simp
qed

theorem unsupported_year_witness:
  "get_tax_brackets 2025 = Inl (ValueError ''Year not supported'')
 \<and> init 2025 = Inl (ValueError ''Year not supported'')
 \<and> calculate_tax_reduction \<lparr>year = 2025, tax_brackets = []\<rparr> 100 =
       Inl (ValueError ''Year not supported'')
 \<and> (\<exists>c. init 2024 = Inr c)
 \<and> (\<exists>r. calculate_tax_reduction \<lparr>year = 2024, tax_brackets = []\<rparr> 100 = Inr r)"
  using unsupported_year [of 2025] unsupported_year [of 2024]
  by simp

text \<open>
  C6. At income zero, on a calculator built for a supported year, the tax, the tax
  reduction and the total tax are all zero.
\<close>

theorem zero_income_zero_tax:
  assumes "init y = Inr c"
  shows "calculate_tax c 0 = 0 \<and> calculate_tax_reduction c 0 = Inr 0
       \<and> calculate_total_tax c 0 = Inr 0"
  using assms
  by (rule init_cases)
     (simp_all add: calculate_tax_def tax_step_def calculate_tax_reduction_def
        calculate_total_tax_def)

theorem zero_income_zero_tax_witness:
  "\<exists>c c'. init 2023 = Inr c \<and> calculate_total_tax c 0 = Inr 0
      \<and> init 2024 = Inr c' \<and> calculate_total_tax c' 0 = Inr 0"
  using zero_income_zero_tax [OF init_2023] zero_income_zero_tax [OF init_2024]
    init_2023 init_2024
  by blast

section \<open>Properties of the calculator in double arithmetic\<close>

subsection \<open>Comparison and rounding\<close>

lemma val_scaled:
  assumes "e0 \<le> exponent a"
  shows "real_of_int (scaled a e0) * 2 powr real_of_int e0 = val a"
proof (cases a)
  case (Double m e)
  with assms have "e0 \<le> e" by simp
  then have "(2::real) ^ nat (e - e0) = 2 powr real_of_int (e - e0)"
    by (simp add: powr_realpow [symmetric])
  then have "(2::real) ^ nat (e - e0) * 2 powr real_of_int e0 = 2 powr real_of_int e"
    by (simp add: powr_add [symmetric])
  with Double show ?thesis by (simp add: mult.assoc)
qed

lemma lt_double_val: "lt_double a b \<longleftrightarrow> val a < val b"
proof -
  let ?e = "min (exponent a) (exponent b)"
  have "val a < val b \<longleftrightarrow>
      real_of_int (scaled a ?e) * 2 powr real_of_int ?e
        < real_of_int (scaled b ?e) * 2 powr real_of_int ?e"
    by (simp add: val_scaled)
  also have "\<dots> \<longleftrightarrow> scaled a ?e < scaled b ?e"
    by simp
  finally show ?thesis by (simp add: lt_double_def Let_def)
qed

lemma le_double_val: "le_double a b \<longleftrightarrow> val a \<le> val b"
proof -
  let ?e = "min (exponent a) (exponent b)"
  have "val a \<le> val b \<longleftrightarrow>
      real_of_int (scaled a ?e) * 2 powr real_of_int ?e
        \<le> real_of_int (scaled b ?e) * 2 powr real_of_int ?e"
    by (simp add: val_scaled)
  also have "\<dots> \<longleftrightarrow> scaled a ?e \<le> scaled b ?e"
    by simp
  finally show ?thesis by (simp add: le_double_def Let_def)
qed

lemma val_int_double: "val (int_double n) = real_of_int n"
  by (simp add: int_double_def)

text \<open>Rounding to an integer moves by at most one half; rounding to a double moves by at
  most \<open>2^-53\<close> of the magnitude, or by \<open>2^-1075\<close> in the subnormal range.\<close>

lemma rne_error_int: "2 * \<bar>rne m k * 2 ^ k - m\<bar> \<le> 2 ^ k"
proof -
  define P :: int where "P = 2 ^ k"
  define q where "q = m div P"
  define r where "r = m mod P"
  have P: "0 < P" by (simp add: P_def)
  have m: "m = q * P + r"
    by (simp add: q_def r_def)
  have r: "0 \<le> r" "r < P"
    using P by (simp_all add: r_def)
  have "rne m k = (if 2 * r < P then q else if P < 2 * r then q + 1
      else if even q then q else q + 1)"
    by (simp add: rne_def Let_def P_def q_def r_def)
  then have "2 * \<bar>rne m k * P - m\<bar> \<le> P"
    using r by (auto simp: m algebra_simps)
  then show ?thesis by (simp add: P_def)
qed

lemma rne_error: "\<bar>real_of_int (rne m k) * 2 ^ k - real_of_int m\<bar> \<le> 2 ^ k / 2"
proof -
  have "real_of_int (2 * \<bar>rne m k * 2 ^ k - m\<bar>) \<le> real_of_int (2 ^ k)"
    using rne_error_int [of m k] by (simp only: of_int_le_iff)
  then show ?thesis by simp
qed

lemma power_nat_powr:
  assumes "0 \<le> i"
  shows "(2::real) ^ nat i = 2 powr real_of_int i"
  using assms by (simp add: powr_realpow [symmetric])

lemma nearest_double_error:
  "\<bar>val (nearest_double m e) - real_of_int m * 2 powr real_of_int e\<bar>
     \<le> 2 powr (- 53) * \<bar>real_of_int m * 2 powr real_of_int e\<bar> + 2 powr (- 1075)"
proof -
  define k where "k = max (bitlen \<bar>m\<bar> - 53) (- 1074 - e)"
  show ?thesis
  proof (cases "k \<le> 0")
    case True
    then have "nearest_double m e = Double m e"
      unfolding nearest_double_def Let_def k_def [symmetric] by simp
    then show ?thesis by simp
  next
    case False
    then have k: "0 < k" by simp
    then have n: "nearest_double m e = Double (rne m (nat k)) (e + k)"
      unfolding nearest_double_def Let_def k_def [symmetric] by simp
    have split: "2 powr real_of_int (e + k) = 2 ^ nat k * 2 powr real_of_int e"
      using k by (simp add: power_nat_powr powr_add)
    have "val (nearest_double m e)
        = real_of_int (rne m (nat k)) * (2 ^ nat k * 2 powr real_of_int e)"
      by (simp only: n val.simps split)
    then have "val (nearest_double m e) - real_of_int m * 2 powr real_of_int e
        = (real_of_int (rne m (nat k)) * 2 ^ nat k - real_of_int m) * 2 powr real_of_int e"
      by (simp add: algebra_simps)
    then have "\<bar>val (nearest_double m e) - real_of_int m * 2 powr real_of_int e\<bar>
        = \<bar>real_of_int (rne m (nat k)) * 2 ^ nat k - real_of_int m\<bar> * 2 powr real_of_int e"
      by (simp add: abs_mult)
    also have "\<dots> \<le> 2 ^ nat k / 2 * 2 powr real_of_int e"
      by (intro mult_right_mono rne_error) simp
    also have "\<dots> = 2 powr real_of_int (e + k - 1)"
      using k by (simp add: power_nat_powr powr_add powr_diff)
    finally have err: "\<bar>val (nearest_double m e) - real_of_int m * 2 powr real_of_int e\<bar>
        \<le> 2 powr real_of_int (e + k - 1)" .
    show ?thesis
    proof (cases "- 1074 - e \<le> bitlen \<bar>m\<bar> - 53")
      case True
      then have kb: "k = bitlen \<bar>m\<bar> - 53" by (simp add: k_def)
      with k have "0 < bitlen \<bar>m\<bar>" by simp
      have pos: "0 < \<bar>m\<bar>"
      proof (rule ccontr)
        assume "\<not> 0 < \<bar>m\<bar>"
        then have "\<bar>m\<bar> \<le> 0" by simp
        then have "bitlen \<bar>m\<bar> = 0" by (simp only: bitlen_eq_zero_iff)
        with \<open>0 < bitlen \<bar>m\<bar>\<close> show False by simp
      qed
      have "bitlen \<bar>m\<bar> - 1 = k + 52" using kb by simp
      with bitlen_bounds [OF pos] have "(2::int) ^ nat (k + 52) \<le> \<bar>m\<bar>"
        by simp
      then have "real_of_int (2 ^ nat (k + 52)) \<le> real_of_int \<bar>m\<bar>"
        by (simp only: of_int_le_iff)
      then have "(2::real) ^ nat (k + 52) \<le> \<bar>real_of_int m\<bar>"
        by simp
      then have "2 powr real_of_int (k + 52) \<le> \<bar>real_of_int m\<bar>"
        using k by (simp add: power_nat_powr)
      then have A: "2 powr (- 53) * (2 powr real_of_int (k + 52) * 2 powr real_of_int e)
          \<le> 2 powr (- 53) * (\<bar>real_of_int m\<bar> * 2 powr real_of_int e)"
        by (intro mult_left_mono mult_right_mono) simp_all
      have B: "2 powr (- 53) * (2 powr real_of_int (k + 52) * 2 powr real_of_int e)
          = 2 powr real_of_int (e + k - 1)"
        by (simp add: powr_add [symmetric] add.commute)
      have C: "\<bar>real_of_int m * 2 powr real_of_int e\<bar>
          = \<bar>real_of_int m\<bar> * 2 powr real_of_int e"
        by (simp add: abs_mult)
      have D: "(0::real) \<le> 2 powr (- 1075)" by simp
      from err A B D show ?thesis
        unfolding C by linarith
    next
      case False
      then have "k = - 1074 - e" by (simp add: k_def)
      then have "2 powr real_of_int (e + k - 1) = 2 powr (- 1075)" by simp
      with err show ?thesis
        by (smt (verit) mult_nonneg_nonneg powr_ge_zero abs_ge_zero)
    qed
  qed
qed

lemma mul_double_error:
  "\<bar>val (mul_double a b) - val a * val b\<bar>
     \<le> 2 powr (- 53) * \<bar>val a * val b\<bar> + 2 powr (- 1075)"
proof -
  obtain m1 e1 where a: "a = Double m1 e1" by (cases a)
  obtain m2 e2 where b: "b = Double m2 e2" by (cases b)
  have "val a * val b = real_of_int (m1 * m2) * 2 powr real_of_int (e1 + e2)"
    by (simp add: a b powr_add)
  moreover have "mul_double a b = nearest_double (m1 * m2) (e1 + e2)"
    by (simp add: a b mul_double_def)
  ultimately show ?thesis
    using nearest_double_error [of "m1 * m2" "e1 + e2"] by simp
qed

lemma add_double_error:
  "\<bar>val (add_double a b) - (val a + val b)\<bar>
     \<le> 2 powr (- 53) * \<bar>val a + val b\<bar> + 2 powr (- 1075)"
proof -
  let ?e = "min (exponent a) (exponent b)"
  have "val a + val b = real_of_int (scaled a ?e + scaled b ?e) * 2 powr real_of_int ?e"
    using val_scaled [of ?e a] val_scaled [of ?e b] by (simp add: algebra_simps)
  moreover have "add_double a b = nearest_double (scaled a ?e + scaled b ?e) ?e"
    by (simp add: add_double_def Let_def)
  ultimately show ?thesis
    using nearest_double_error [of "scaled a ?e + scaled b ?e" ?e] by simp
qed

lemma sub_double_error:
  "\<bar>val (sub_double a b) - (val a - val b)\<bar>
     \<le> 2 powr (- 53) * \<bar>val a - val b\<bar> + 2 powr (- 1075)"
proof -
  let ?e = "min (exponent a) (exponent b)"
  have "val a - val b = real_of_int (scaled a ?e - scaled b ?e) * 2 powr real_of_int ?e"
    using val_scaled [of ?e a] val_scaled [of ?e b] by (simp add: algebra_simps)
  moreover have "sub_double a b = nearest_double (scaled a ?e - scaled b ?e) ?e"
    by (simp add: sub_double_def Let_def)
  ultimately show ?thesis
    using nearest_double_error [of "scaled a ?e - scaled b ?e" ?e] by simp
qed

lemma coarse_error:
  fixes r v x :: real
  assumes "\<bar>r - v\<bar> \<le> 2 powr (- 53) * \<bar>v\<bar> + 2 powr (- 1075)"
    and "2 powr (- 1022) \<le> x"
  shows "\<bar>r - v\<bar> \<le> \<bar>v\<bar> / 10000 + x / 10000"
proof -
  have u: "(2::real) powr (- 53) \<le> 1 / 10000"
    by (simp add: powr_neg_numeral)
  then have "2 powr (- 53) * \<bar>v\<bar> \<le> 1 / 10000 * \<bar>v\<bar>"
    by (intro mult_right_mono) simp_all
  moreover have "(2::real) powr (- 1075) = 2 powr (- 53) * 2 powr (- 1022)"
    by (simp add: powr_add [symmetric])
  moreover have "2 powr (- 53) * 2 powr (- 1022) \<le> 1 / 10000 * (2::real) powr (- 1022)"
    using u by (intro mult_right_mono) simp_all
  ultimately show ?thesis
    using assms by linarith
qed

subsection \<open>The tables and the literals\<close>

lemma literals_nearest:
  "\<bar>val literal_0_15 - 0.15\<bar> < 2 powr (- 56)"
  "\<bar>val literal_0_20 - 0.20\<bar> < 2 powr (- 56)"
  "\<bar>val literal_0_24 - 0.24\<bar> < 2 powr (- 56)"
  "\<bar>val literal_0_2575 - 0.2575\<bar> < 2 powr (- 55)"
  "\<bar>val literal_0_165 - 0.165\<bar> < 2 powr (- 56)"
  by (simp_all add: literal_0_15_def literal_0_20_def literal_0_24_def literal_0_2575_def
      literal_0_165_def powr_neg_numeral)

lemma literals_double:
  "is_double literal_0_15" "is_double literal_0_20" "is_double literal_0_24"
  "is_double literal_0_2575" "is_double literal_0_165"
  by (simp_all add: is_double_def literal_0_15_def literal_0_20_def literal_0_24_def
      literal_0_2575_def literal_0_165_def)

lemma init_double_2023:
  "init_double 2023 = Inr \<lparr>year_d = 2023, tax_brackets_d =
        [\<lparr>min_d = int_double 0, max_d = Fin_double (int_double 46295), rate_d = literal_0_15\<rparr>,
         \<lparr>min_d = int_double 46295, max_d = Fin_double (int_double 92580), rate_d = literal_0_20\<rparr>,
         \<lparr>min_d = int_double 92580, max_d = Fin_double (int_double 112655), rate_d = literal_0_24\<rparr>,
         \<lparr>min_d = int_double 112655, max_d = PosInf_double, rate_d = literal_0_2575\<rparr>]\<rparr>"
  by (simp add: init_double_def get_tax_brackets_double_def)

lemma init_double_2024:
  "init_double 2024 = Inr \<lparr>year_d = 2024, tax_brackets_d =
        [\<lparr>min_d = int_double 0, max_d = Fin_double (int_double 47000), rate_d = literal_0_15\<rparr>,
         \<lparr>min_d = int_double 47000, max_d = Fin_double (int_double 94000), rate_d = literal_0_20\<rparr>,
         \<lparr>min_d = int_double 94000, max_d = Fin_double (int_double 114000), rate_d = literal_0_24\<rparr>,
         \<lparr>min_d = int_double 114000, max_d = PosInf_double, rate_d = literal_0_2575\<rparr>]\<rparr>"
  by (simp add: init_double_def get_tax_brackets_double_def)

lemma init_double_cases:
  assumes "init_double y = Inr c"
  obtains "y = 2023" "init_double 2023 = Inr c" | "y = 2024" "init_double 2024 = Inr c"
  using assms by (auto simp: init_double_def get_tax_brackets_double_def split: if_splits)

lemma tables_match:
  assumes "init y = Inr c"
  shows "\<exists>d. init_double y = Inr d \<and> year_d d = year c
           \<and> list_all2 bracket_matches (tax_brackets_d d) (tax_brackets c)"
  using assms
  by (rule init_cases)
     (simp_all add: init_double_2023 init_double_2024 bracket_matches_def val_int_double
        literal_0_15_def literal_0_20_def literal_0_24_def literal_0_2575_def
        powr_neg_numeral)

subsection \<open>The total tax at low incomes\<close>

lemma low_income_total:
  assumes "init_double y = Inr c" and "0 < val income"
    and "val income < (if y = 2023 then 16143 else 16400)"
  shows "calculate_total_tax_double c income =
     Inr (sub_double
            (add_double (int_double 0)
               (mul_double (sub_double income (int_double 0)) literal_0_15))
            (mul_double income literal_0_165))"
  using assms(1)
proof (rule init_double_cases)
  assume y: "y = 2023" and "init_double 2023 = Inr c"
  then have c: "c = \<lparr>year_d = 2023, tax_brackets_d =
        [\<lparr>min_d = int_double 0, max_d = Fin_double (int_double 46295), rate_d = literal_0_15\<rparr>,
         \<lparr>min_d = int_double 46295, max_d = Fin_double (int_double 92580), rate_d = literal_0_20\<rparr>,
         \<lparr>min_d = int_double 92580, max_d = Fin_double (int_double 112655), rate_d = literal_0_24\<rparr>,
         \<lparr>min_d = int_double 112655, max_d = PosInf_double, rate_d = literal_0_2575\<rparr>]\<rparr>"
    by (simp add: init_double_2023)
  from assms(2,3) y show ?thesis
    unfolding c
    by (simp add: calculate_total_tax_double_def calculate_tax_double_def
        calculate_tax_reduction_double_def tax_step_double_def lt_double_val le_double_val
        val_int_double)
next
  assume y: "y = 2024" and "init_double 2024 = Inr c"
  then have c: "c = \<lparr>year_d = 2024, tax_brackets_d =
        [\<lparr>min_d = int_double 0, max_d = Fin_double (int_double 47000), rate_d = literal_0_15\<rparr>,
         \<lparr>min_d = int_double 47000, max_d = Fin_double (int_double 94000), rate_d = literal_0_20\<rparr>,
         \<lparr>min_d = int_double 94000, max_d = Fin_double (int_double 114000), rate_d = literal_0_24\<rparr>,
         \<lparr>min_d = int_double 114000, max_d = PosInf_double, rate_d = literal_0_2575\<rparr>]\<rparr>"
    by (simp add: init_double_2024)
  from assms(2,3) y show ?thesis
    unfolding c
    by (simp add: calculate_total_tax_double_def calculate_tax_double_def
        calculate_tax_reduction_double_def tax_step_double_def lt_double_val le_double_val
        val_int_double)
qed

lemma low_income_total_negative:
  assumes "2 powr (- 1022) \<le> val income"
  shows "val (sub_double
            (add_double (int_double 0)
               (mul_double (sub_double income (int_double 0)) literal_0_15))
            (mul_double income literal_0_165)) < 0"
proof -
  define x where "x = val income"
  define t0 where "t0 = val (sub_double income (int_double 0))"
  define p where "p = val (mul_double (sub_double income (int_double 0)) literal_0_15)"
  define tax where "tax = val (add_double (int_double 0)
      (mul_double (sub_double income (int_double 0)) literal_0_15))"
  define red where "red = val (mul_double income literal_0_165)"
  define tot where "tot = val (sub_double
            (add_double (int_double 0)
               (mul_double (sub_double income (int_double 0)) literal_0_15))
            (mul_double income literal_0_165))"
  have x: "2 powr (- 1022) \<le> x"
    using assms by (simp add: x_def)
  have "(0::real) < 2 powr (- 1022)" by simp
  with x have pos: "0 < x" by linarith
  have r15: "val literal_0_15 = 5404319552844595 / 36028797018963968"
    by (simp add: literal_0_15_def powr_neg_numeral)
  have r165: "val literal_0_165 = 5944751508129055 / 36028797018963968"
    by (simp add: literal_0_165_def powr_neg_numeral)
  have z: "val (int_double 0) = 0"
    by (simp add: int_double_def)
  have e1: "\<bar>t0 - x\<bar> \<le> \<bar>x\<bar> / 10000 + x / 10000"
    using coarse_error [OF sub_double_error [of income "int_double 0"] x]
    by (simp add: t0_def x_def z)
  have e2: "\<bar>p - t0 * (5404319552844595 / 36028797018963968)\<bar>
      \<le> \<bar>t0 * (5404319552844595 / 36028797018963968)\<bar> / 10000 + x / 10000"
    using coarse_error [OF mul_double_error [of "sub_double income (int_double 0)" literal_0_15] x]
    by (simp only: p_def t0_def r15)
  have e3: "\<bar>tax - p\<bar> \<le> \<bar>p\<bar> / 10000 + x / 10000"
    using coarse_error [OF add_double_error [of "int_double 0"
          "mul_double (sub_double income (int_double 0)) literal_0_15"] x]
    by (simp add: tax_def p_def z)
  have e4: "\<bar>red - x * (5944751508129055 / 36028797018963968)\<bar>
      \<le> \<bar>x * (5944751508129055 / 36028797018963968)\<bar> / 10000 + x / 10000"
    using coarse_error [OF mul_double_error [of income literal_0_165] x]
    by (simp only: red_def x_def r165)
  have e5: "\<bar>tot - (tax - red)\<bar> \<le> \<bar>tax - red\<bar> / 10000 + x / 10000"
    using coarse_error [OF sub_double_error [of "add_double (int_double 0)
          (mul_double (sub_double income (int_double 0)) literal_0_15)"
          "mul_double income literal_0_165"] x]
    by (simp only: tot_def tax_def red_def)
  have t0b: "9998 / 10000 * x \<le> t0" "t0 \<le> 10002 / 10000 * x"
    using pos e1 by linarith+
  have "0 \<le> t0 * (5404319552844595 / 36028797018963968)"
    using t0b(1) pos by simp
  then have a2: "\<bar>t0 * (5404319552844595 / 36028797018963968)\<bar>
      = t0 * (5404319552844595 / 36028797018963968)"
    by (rule abs_of_nonneg)
  have pb: "1498 / 10000 * x \<le> p" "p \<le> 1502 / 10000 * x"
    using e2 [unfolded a2] t0b pos by linarith+
  have taxb: "1496 / 10000 * x \<le> tax" "tax \<le> 1504 / 10000 * x"
    using e3 pb pos by linarith+
  have "0 \<le> x * (5944751508129055 / 36028797018963968)"
    using pos by simp
  then have a4: "\<bar>x * (5944751508129055 / 36028797018963968)\<bar>
      = x * (5944751508129055 / 36028797018963968)"
    by (rule abs_of_nonneg)
  have redb: "1648 / 10000 * x \<le> red" "red \<le> 1652 / 10000 * x"
    using e4 [unfolded a4] pos by linarith+
  have "tax - red \<le> 0"
    using taxb redb pos by linarith
  then have a5: "\<bar>tax - red\<bar> = red - tax"
    by simp
  have "tot \<le> (tax - red) + (red - tax) / 10000 + x / 10000"
    using e5 [unfolded a5] by linarith
  with pos taxb redb have "tot < 0"
    by argo
  then show ?thesis by (simp only: tot_def)
qed

text \<open>Three runs of the method: at the smallest positive double, \<open>2^-1074\<close>, which
  Python writes \<open>5e-324\<close>; at 10000, where Python returns \<open>-150.0\<close>; and at
  80000, where Python returns \<open>11021.654999999999\<close>, the double
  \<open>6059218914917744 * 2^-39\<close>, and exact arithmetic gives \<open>11021.655\<close>.\<close>

lemma smallest_2023:
  "calculate_total_tax_double \<lparr>year_d = 2023, tax_brackets_d =
        [\<lparr>min_d = int_double 0, max_d = Fin_double (int_double 46295), rate_d = literal_0_15\<rparr>,
         \<lparr>min_d = int_double 46295, max_d = Fin_double (int_double 92580), rate_d = literal_0_20\<rparr>,
         \<lparr>min_d = int_double 92580, max_d = Fin_double (int_double 112655), rate_d = literal_0_24\<rparr>,
         \<lparr>min_d = int_double 112655, max_d = PosInf_double, rate_d = literal_0_2575\<rparr>]\<rparr>
      (Double 1 (- 1074)) = Inr (Double 0 (- 1074))"
  by code_simp

lemma ten_thousand_2023:
  "calculate_total_tax_double \<lparr>year_d = 2023, tax_brackets_d =
        [\<lparr>min_d = int_double 0, max_d = Fin_double (int_double 46295), rate_d = literal_0_15\<rparr>,
         \<lparr>min_d = int_double 46295, max_d = Fin_double (int_double 92580), rate_d = literal_0_20\<rparr>,
         \<lparr>min_d = int_double 92580, max_d = Fin_double (int_double 112655), rate_d = literal_0_24\<rparr>,
         \<lparr>min_d = int_double 112655, max_d = PosInf_double, rate_d = literal_0_2575\<rparr>]\<rparr>
      (Double 10000 0) = Inr (Double (- 659706976665600) (- 42))"
  by code_simp

lemma eighty_thousand_2023:
  "calculate_total_tax_double \<lparr>year_d = 2023, tax_brackets_d =
        [\<lparr>min_d = int_double 0, max_d = Fin_double (int_double 46295), rate_d = literal_0_15\<rparr>,
         \<lparr>min_d = int_double 46295, max_d = Fin_double (int_double 92580), rate_d = literal_0_20\<rparr>,
         \<lparr>min_d = int_double 92580, max_d = Fin_double (int_double 112655), rate_d = literal_0_24\<rparr>,
         \<lparr>min_d = int_double 112655, max_d = PosInf_double, rate_d = literal_0_2575\<rparr>]\<rparr>
      (Double 80000 0) = Inr (Double 6059218914917744 (- 39))"
  by code_simp

subsection \<open>The claim about the total tax\<close>

text \<open>
  C9, as the claim states it, fails. The income \<open>5e-324\<close> is a double strictly between
  0 and the threshold 16143 of 2023. There the products \<open>income * 0.15\<close> and
  \<open>income * 0.165\<close> both round to \<open>0.0\<close>, and \<open>calculate_total_tax\<close> returns
  \<open>0.0\<close>, which is not strictly negative.
\<close>

theorem total_tax_zero_at_smallest_double:
  "is_double (Double 1 (- 1074))
 \<and> 0 < val (Double 1 (- 1074)) \<and> val (Double 1 (- 1074)) < 16143
 \<and> (\<exists>c t. init_double 2023 = Inr c
        \<and> calculate_total_tax_double c (Double 1 (- 1074)) = Inr t \<and> val t = 0)"
proof -
  have "is_double (Double 1 (- 1074))"
    by (simp add: is_double_def)
  moreover have "0 < val (Double 1 (- 1074))"
    by simp
  moreover have "(2::real) powr (- 1074) < 16143"
    by (rule less_trans [of _ 1]) (simp_all add: powr_neg_numeral)
  then have "val (Double 1 (- 1074)) < 16143"
    by simp
  moreover have "val (Double 0 (- 1074)) = 0"
    by simp
  ultimately show ?thesis
    using init_double_2023 smallest_2023 by blast
qed

text \<open>
  C9, amended. For each supported year and every income from \<open>2^-1022\<close>, the smallest
  positive normal double (about \<open>2.2e-308\<close>), up to but not including the reduction
  threshold of the year (16143 for 2023, 16400 for 2024), hence for every positive
  integer or whole-cent income below the threshold, \<open>calculate_total_tax\<close> returns a
  strictly negative double: the reduction rate 0.165 exceeds the first bracket rate 0.15
  by far more than the rounding of the five operations involved.
\<close>

theorem total_tax_double_negative:
  assumes "init_double y = Inr c" and "2 powr (- 1022) \<le> val income"
    and "val income < (if y = 2023 then 16143 else 16400)"
  shows "\<exists>t. calculate_total_tax_double c income = Inr t \<and> val t < 0"
proof -
  have "(0::real) < 2 powr (- 1022)" by simp
  with assms(2) have "0 < val income" by linarith
  from low_income_total [OF assms(1) this assms(3)] low_income_total_negative [OF assms(2)]
  show ?thesis by simp
qed

theorem total_tax_double_negative_witness:
  "is_double (Double 10000 0)
 \<and> (\<exists>c t. init_double 2023 = Inr c
        \<and> calculate_total_tax_double c (Double 10000 0) = Inr t \<and> val t = - 150)"
proof -
  have a: "2 powr (- 1022) \<le> val (Double 10000 0)"
    by (rule order_trans [of _ 1]) (simp_all add: powr_neg_numeral)
  have b: "val (Double 10000 0) < (if (2023::int) = 2023 then 16143 else 16400)"
    by simp
  from total_tax_double_negative [OF init_double_2023 a b] obtain t where
    t: "calculate_total_tax_double \<lparr>year_d = 2023, tax_brackets_d =
        [\<lparr>min_d = int_double 0, max_d = Fin_double (int_double 46295), rate_d = literal_0_15\<rparr>,
         \<lparr>min_d = int_double 46295, max_d = Fin_double (int_double 92580), rate_d = literal_0_20\<rparr>,
         \<lparr>min_d = int_double 92580, max_d = Fin_double (int_double 112655), rate_d = literal_0_24\<rparr>,
         \<lparr>min_d = int_double 112655, max_d = PosInf_double, rate_d = literal_0_2575\<rparr>]\<rparr>
      (Double 10000 0) = Inr t" and "val t < 0"
    by blast
  from t ten_thousand_2023 have "t = Double (- 659706976665600) (- 42)"
    by simp
  then have "val t = - 150"
    by (simp add: powr_neg_numeral)
  moreover have "is_double (Double 10000 0)"
    by (simp add: is_double_def)
  ultimately show ?thesis
    using init_double_2023 t by blast
qed

section \<open>Properties of the generator\<close>

subsection \<open>Postconditions of the computations\<close>

lemma postD: "post m P \<Longrightarrow> m s = Inr (a, s') \<Longrightarrow> P a"
  by (auto simp: post_def)

lemma post_return: "P a \<Longrightarrow> post (return a) P"
  by (simp add: post_def return_def)

lemma post_bind:
  assumes "post m Q" and "\<And>a. Q a \<Longrightarrow> post (f a) P"
  shows "post (bind m f) P"
  using assms by (fastforce simp: post_def bind_def split: sum.splits)

lemma post_choice: "post (choice randbelow seq) (\<lambda>x. x \<in> set seq)"
  by (auto simp: post_def choice_def Let_def split: if_splits prod.splits)

lemma post_weaken: "post m Q \<Longrightarrow> (\<And>a. Q a \<Longrightarrow> P a) \<Longrightarrow> post m P"
  by (auto simp: post_def)

lemma post_if_choice:
  "post (if b then choice randbelow seq else return d) (\<lambda>x. if b then x \<in> set seq else x = d)"
  by (simp add: post_choice post_return)

subsection \<open>The attributes of the children\<close>

text \<open>Writing the three keys of one child keeps \<open>child_ok\<close>, provided an age above 5
  comes with the fee 0 and the subsidised type; no other key changes.\<close>

lemma child_ok_upd3:
  assumes "child_ok m" and "5 < a \<longrightarrow> f = PInt 0 \<and> t = PStr subv"
  shows "child_ok (m(''age_enfant'' @ x \<mapsto> PInt a, ''frais'' @ x \<mapsto> f, ''type_garde'' @ x \<mapsto> t))"
  unfolding child_ok_def
proof (intro allI)
  fix sfx
  show "(\<forall>aa. (m(''age_enfant'' @ x \<mapsto> PInt a, ''frais'' @ x \<mapsto> f, ''type_garde'' @ x \<mapsto> t)) (''age_enfant'' @ sfx) = Some (PInt aa) \<longrightarrow> 5 < aa \<longrightarrow>
         (m(''age_enfant'' @ x \<mapsto> PInt a, ''frais'' @ x \<mapsto> f, ''type_garde'' @ x \<mapsto> t)) (''frais'' @ sfx) = Some (PInt 0) \<and> (m(''age_enfant'' @ x \<mapsto> PInt a, ''frais'' @ x \<mapsto> f, ''type_garde'' @ x \<mapsto> t)) (''type_garde'' @ sfx) = Some (PStr subv))
    \<and> (\<forall>v. (m(''age_enfant'' @ x \<mapsto> PInt a, ''frais'' @ x \<mapsto> f, ''type_garde'' @ x \<mapsto> t)) (''frais'' @ sfx) = Some v \<longrightarrow> v \<noteq> PInt 0 \<longrightarrow>
         (\<exists>aa. aa \<le> 5 \<and> (m(''age_enfant'' @ x \<mapsto> PInt a, ''frais'' @ x \<mapsto> f, ''type_garde'' @ x \<mapsto> t)) (''age_enfant'' @ sfx) = Some (PInt aa)))
    \<and> (\<forall>v. (m(''age_enfant'' @ x \<mapsto> PInt a, ''frais'' @ x \<mapsto> f, ''type_garde'' @ x \<mapsto> t)) (''type_garde'' @ sfx) = Some v \<longrightarrow> v \<noteq> PStr subv \<longrightarrow>
         (\<exists>aa. aa \<le> 5 \<and> (m(''age_enfant'' @ x \<mapsto> PInt a, ''frais'' @ x \<mapsto> f, ''type_garde'' @ x \<mapsto> t)) (''age_enfant'' @ sfx) = Some (PInt aa)))"
  proof (cases "sfx = x")
    case True
    with assms(2) show ?thesis by auto
  next
    case False
    with assms(1) [unfolded child_ok_def, rule_format, of sfx] show ?thesis by simp
  qed
qed

lemma child_frame:
  assumes "\<not> child_key k"
  shows "((map_of c0)(''age_enfant'' @ x \<mapsto> u, ''frais'' @ x \<mapsto> f, ''type_garde'' @ x \<mapsto> t)) k
     = map_of c0 k"
  using assms unfolding child_key_def by (metis fun_upd_apply)

lemma post_child:
  "post (child randbelow i c0)
     (\<lambda>c. (\<forall>k. \<not> child_key k \<longrightarrow> map_of c k = map_of c0 k)
        \<and> (child_ok (map_of c0) \<longrightarrow> child_ok (map_of c)))"
  unfolding child_def Let_def
proof (rule post_bind [OF post_choice])
  fix a :: int
  show "post (if a \<le> 5
      then bind (choice randbelow frais_garde) (\<lambda>frais.
             bind (choice randbelow types_garde) (\<lambda>type_garde.
               return (AList.update (''type_garde'' @ str i) (PStr type_garde)
                 (AList.update (''frais'' @ str i) (PInt frais)
                   (AList.update (''age_enfant'' @ str i) (PInt a) c0)))))
      else return (AList.update (''type_garde'' @ str i) (PStr (''Subventionn'' @ CHR 0xE9 # ''e''))
             (AList.update (''frais'' @ str i) (PInt 0)
               (AList.update (''age_enfant'' @ str i) (PInt a) c0))))
     (\<lambda>c. (\<forall>k. \<not> child_key k \<longrightarrow> map_of c k = map_of c0 k)
        \<and> (child_ok (map_of c0) \<longrightarrow> child_ok (map_of c)))"
  proof (cases "a \<le> 5")
    case True
    have "post (bind (choice randbelow frais_garde) (\<lambda>frais.
             bind (choice randbelow types_garde) (\<lambda>type_garde.
               return (AList.update (''type_garde'' @ str i) (PStr type_garde)
                 (AList.update (''frais'' @ str i) (PInt frais)
                   (AList.update (''age_enfant'' @ str i) (PInt a) c0))))))
     (\<lambda>c. (\<forall>k. \<not> child_key k \<longrightarrow> map_of c k = map_of c0 k)
        \<and> (child_ok (map_of c0) \<longrightarrow> child_ok (map_of c)))"
      apply (rule post_bind [OF post_choice])
      apply (rule post_bind [OF post_choice])
      apply (rule post_return)
      apply (simp only: AList.update_conv')
      apply (intro conjI allI impI)
       apply (erule child_frame)
      apply (rule child_ok_upd3)
      using True apply simp_all
      done
    with True show ?thesis by (simp only: if_True)
  next
    case False
    have "post (return (AList.update (''type_garde'' @ str i) (PStr (''Subventionn'' @ CHR 0xE9 # ''e''))
             (AList.update (''frais'' @ str i) (PInt 0)
               (AList.update (''age_enfant'' @ str i) (PInt a) c0))))
     (\<lambda>c. (\<forall>k. \<not> child_key k \<longrightarrow> map_of c k = map_of c0 k)
        \<and> (child_ok (map_of c0) \<longrightarrow> child_ok (map_of c)))"
      apply (rule post_return)
      apply (simp only: AList.update_conv' subv_def [symmetric])
      apply (intro conjI allI impI)
       apply (erule child_frame)
      apply (rule child_ok_upd3)
       apply simp_all
      done
    with False show ?thesis by (simp only: if_False)
  qed
qed

lemma post_children:
  "post (children randbelow is c0)
     (\<lambda>c. (\<forall>k. \<not> child_key k \<longrightarrow> map_of c k = map_of c0 k)
        \<and> (child_ok (map_of c0) \<longrightarrow> child_ok (map_of c)))"
proof (induction "is" arbitrary: c0)
  case Nil
  show ?case by (simp add: post_return)
next
  case (Cons i "is")
  show ?case
    unfolding children.simps
  proof (rule post_bind [OF post_child])
    fix c1
    assume "(\<forall>k. \<not> child_key k \<longrightarrow> map_of c1 k = map_of c0 k)
        \<and> (child_ok (map_of c0) \<longrightarrow> child_ok (map_of c1))"
    then show "post (children randbelow is c1)
       (\<lambda>c. (\<forall>k. \<not> child_key k \<longrightarrow> map_of c k = map_of c0 k)
          \<and> (child_ok (map_of c0) \<longrightarrow> child_ok (map_of c)))"
      by (intro post_weaken [OF Cons.IH [of c1]]) simp
  qed
qed

lemma not_child_key_base:
  "\<not> child_key ''situation''" "\<not> child_key ''revenu1''" "\<not> child_key ''age1''"
  "\<not> child_key ''revenu2''" "\<not> child_key ''age2''" "\<not> child_key ''nb_enfants''"
  by (simp_all add: child_key_def)

lemma child_ok_base:
  "child_ok (map_of
     [(''situation'', v1), (''revenu1'', v2), (''age1'', v3), (''revenu2'', v4),
      (''age2'', v5), (''nb_enfants'', v6)])"
  by (simp add: child_ok_def)

subsection \<open>The flags of the five situations\<close>

lemma situation_flags:
  "map (\<lambda>s. (est_retraite s, est_couple s, peut_avoir_enfants s)) situations =
     [(False, False, False), (False, False, True), (False, True, True),
      (True, False, False), (True, True, False)]"
  by code_simp

lemma flags:
  "est_retraite ''Personne vivant seule'' = False"
  "est_retraite ''Famille monoparentale'' = False"
  "est_retraite ''Couple'' = False"
  "est_retraite (''Retrait'' @ CHR 0xE9 # '' vivant seul'') = True"
  "est_retraite (''Couple de retrait'' @ CHR 0xE9 # ''s'') = True"
  "est_couple ''Personne vivant seule'' = False"
  "est_couple ''Famille monoparentale'' = False"
  "est_couple ''Couple'' = True"
  "est_couple (''Retrait'' @ CHR 0xE9 # '' vivant seul'') = False"
  "est_couple (''Couple de retrait'' @ CHR 0xE9 # ''s'') = True"
  "peut_avoir_enfants ''Personne vivant seule'' = False"
  "peut_avoir_enfants ''Famille monoparentale'' = True"
  "peut_avoir_enfants ''Couple'' = True"
  "peut_avoir_enfants (''Retrait'' @ CHR 0xE9 # '' vivant seul'') = False"
  "peut_avoir_enfants (''Couple de retrait'' @ CHR 0xE9 # ''s'') = False"
  using situation_flags by (simp_all add: situations_def)

lemma childless:
  assumes "sit \<in> {''Personne vivant seule'', ''Retrait'' @ CHR 0xE9 # '' vivant seul'',
                     ''Couple de retrait'' @ CHR 0xE9 # ''s''}"
  shows "\<not> peut_avoir_enfants sit"
  using assms by (elim insertE emptyE) (simp_all only: flags simp_thms)

lemma couple_iff:
  assumes "sit \<in> set situations"
  shows "est_couple sit \<longleftrightarrow> sit \<in> {''Couple'', ''Couple de retrait'' @ CHR 0xE9 # ''s''}"
  using assms situation_flags by (auto simp: situations_def)

lemma retraite_iff:
  assumes "sit \<in> set situations"
  shows "est_retraite sit \<longleftrightarrow> sit \<in> {''Retrait'' @ CHR 0xE9 # '' vivant seul'',
                           ''Couple de retrait'' @ CHR 0xE9 # ''s''}"
  using assms situation_flags by (auto simp: situations_def)

subsection \<open>Every case built is well formed\<close>

lemma case_ok_base:
  assumes "sit \<in> set situations" and "r1 \<in> set revenus" and "a1 \<in> set (ages_adulte sit)"
    and "if est_couple sit then r2 \<in> set revenus else r2 = 0"
    and "if est_couple sit then a2 \<in> set (ages_adulte sit) else a2 = 0"
    and "\<not> peut_avoir_enfants sit"
  shows "case_ok
     [(''situation'', PStr sit), (''revenu1'', PInt r1), (''age1'', PInt a1),
      (''revenu2'', PInt r2), (''age2'', PInt a2), (''nb_enfants'', PInt 0)]"
  unfolding case_ok_def using assms child_ok_base
  by (simp add: base_keys_def split: if_splits)

lemma case_ok_children:
  assumes "sit \<in> set situations" and "r1 \<in> set revenus" and "a1 \<in> set (ages_adulte sit)"
    and "if est_couple sit then r2 \<in> set revenus else r2 = 0"
    and "if est_couple sit then a2 \<in> set (ages_adulte sit) else a2 = 0"
    and "peut_avoir_enfants sit"
    and frame: "\<forall>k. \<not> child_key k \<longrightarrow> map_of c k = map_of (AList.update ''nb_enfants'' (PInt n)
     [(''situation'', PStr sit), (''revenu1'', PInt r1), (''age1'', PInt a1),
      (''revenu2'', PInt r2), (''age2'', PInt a2), (''nb_enfants'', PInt 0)]) k"
    and ok: "child_ok (map_of c)"
  shows "case_ok c"
  unfolding case_ok_def using assms(1-6) ok
  by (simp add: frame [rule_format] not_child_key_base split: if_splits)

lemma post_make_case: "post (make_case randbelow) case_ok"
  unfolding make_case_def Let_def ages_adulte_def [symmetric]
proof (intro post_bind [OF post_choice] post_bind [OF post_if_choice])
  fix sit r1 a1 r2 a2
  assume h: "sit \<in> set situations" "r1 \<in> set revenus" "a1 \<in> set (ages_adulte sit)"
    "if est_couple sit then r2 \<in> set revenus else r2 = 0"
    "if est_couple sit then a2 \<in> set (ages_adulte sit) else a2 = 0"
  show "post (if peut_avoir_enfants sit
      then bind (choice randbelow nb_enfants) (\<lambda>n.
             children randbelow (range_py 1 (n + 1))
               (AList.update ''nb_enfants'' (PInt n)
                  [(''situation'', PStr sit), (''revenu1'', PInt r1), (''age1'', PInt a1),
                   (''revenu2'', PInt r2), (''age2'', PInt a2), (''nb_enfants'', PInt 0)]))
      else return
             [(''situation'', PStr sit), (''revenu1'', PInt r1), (''age1'', PInt a1),
              (''revenu2'', PInt r2), (''age2'', PInt a2), (''nb_enfants'', PInt 0)])
     case_ok"
  proof (cases "peut_avoir_enfants sit")
    case False
    then show ?thesis
      using case_ok_base [OF h False] by (simp add: post_return)
  next
    case True
    have "post (children randbelow (range_py 1 (n + 1))
               (AList.update ''nb_enfants'' (PInt n)
                  [(''situation'', PStr sit), (''revenu1'', PInt r1), (''age1'', PInt a1),
                   (''revenu2'', PInt r2), (''age2'', PInt a2), (''nb_enfants'', PInt 0)]))
            case_ok" for n
    proof (rule post_weaken [OF post_children])
      fix c
      assume c: "(\<forall>k. \<not> child_key k \<longrightarrow> map_of c k = map_of (AList.update ''nb_enfants'' (PInt n)
                  [(''situation'', PStr sit), (''revenu1'', PInt r1), (''age1'', PInt a1),
                   (''revenu2'', PInt r2), (''age2'', PInt a2), (''nb_enfants'', PInt 0)]) k)
        \<and> (child_ok (map_of (AList.update ''nb_enfants'' (PInt n)
                  [(''situation'', PStr sit), (''revenu1'', PInt r1), (''age1'', PInt a1),
                   (''revenu2'', PInt r2), (''age2'', PInt a2), (''nb_enfants'', PInt 0)]))
              \<longrightarrow> child_ok (map_of c))"
      have "child_ok (map_of (AList.update ''nb_enfants'' (PInt n)
                  [(''situation'', PStr sit), (''revenu1'', PInt r1), (''age1'', PInt a1),
                   (''revenu2'', PInt r2), (''age2'', PInt a2), (''nb_enfants'', PInt 0)]))"
        using child_ok_base by simp
      with c have "child_ok (map_of c)" by blast
      with c show "case_ok c"
        using case_ok_children [OF h True] by blast
    qed
    then show ?thesis
      using True by (simp add: post_bind [OF post_choice])
  qed
qed

lemma post_cases_loop:
  assumes "\<forall>c \<in> set acc. case_ok c"
  shows "post (cases_loop randbelow k acc) (\<lambda>cases. \<forall>c \<in> set cases. case_ok c)"
  using assms
proof (induction k arbitrary: acc)
  case 0
  then show ?case by (simp add: post_return)
next
  case (Suc k)
  show ?case
    unfolding cases_loop.simps
  proof (rule post_bind [OF post_make_case])
    fix c
    assume "case_ok c"
    with Suc.prems show "post (cases_loop randbelow k (acc @ [c])) (\<lambda>cases. \<forall>c \<in> set cases. case_ok c)"
      by (intro Suc.IH) simp
  qed
qed

lemma generated_case_ok:
  assumes "generate_test_cases randbelow nobs s = Inr (cases, s')" and "c \<in> set cases"
  shows "case_ok c"
  using postD [OF post_cases_loop [of "[]" randbelow "nat nobs"], of s cases s'] assms
  by (simp add: generate_test_cases_def)

lemma case_okE:
  assumes "case_ok c"
  obtains sit r1 a1 r2 a2 n where
    "map_of c ''situation'' = Some (PStr sit)" and "sit \<in> set situations"
    and "map_of c ''revenu1'' = Some (PInt r1)" and "r1 \<in> set revenus"
    and "map_of c ''age1'' = Some (PInt a1)" and "a1 \<in> set (ages_adulte sit)"
    and "map_of c ''revenu2'' = Some (PInt r2)"
    and "map_of c ''age2'' = Some (PInt a2)"
    and "if est_couple sit then r2 \<in> set revenus \<and> a2 \<in> set (ages_adulte sit)
         else r2 = 0 \<and> a2 = 0"
    and "map_of c ''nb_enfants'' = Some (PInt n)"
    and "\<not> peut_avoir_enfants sit \<longrightarrow> n = 0 \<and> map fst c = base_keys"
    and "child_ok (map_of c)"
  using assms unfolding case_ok_def by (elim exE conjE) (rule that)

lemma if_mem:
  assumes "a1 \<in> S" and "a2 \<in> S" and "S = (if P then A else B)"
  shows "if P then a1 \<in> A \<and> a2 \<in> A else a1 \<in> B \<and> a2 \<in> B"
  using assms by (simp split: if_splits)

subsection \<open>The generator returns\<close>









subsection \<open>Two random sources that make the same draws\<close>









subsection \<open>Two runs on given draws\<close>

lemma replay_run:
  "generate_test_cases replay 2 [1, 0, 0, 1, 2, 4, 6, 2, 3, 1] =
     Inr ([[(''situation'', PStr ''Famille monoparentale''), (''revenu1'', PInt 0),
            (''age1'', PInt 25), (''revenu2'', PInt 0), (''age2'', PInt 0),
            (''nb_enfants'', PInt 1), (''age_enfant1'', PInt 10), (''frais1'', PInt 0),
            (''type_garde1'', PStr (''Subventionn'' @ CHR 0xE9 # ''e''))],
           [(''situation'', PStr (''Couple de retrait'' @ CHR 0xE9 # ''s'')),
            (''revenu1'', PInt 90000), (''age1'', PInt 85), (''revenu2'', PInt 45000),
            (''age2'', PInt 75), (''nb_enfants'', PInt 0)]], [])"
  by code_simp

lemma str_1: "str 1 = ''1''"
  by code_simp

subsection \<open>The claims about the generator\<close>

text \<open>
  C7, as the claim states it, fails in its last part: a child older than 5 does carry a
  childcare fee and a care-type. On the draws below the generator builds a single-parent
  family with one child aged 10, and the case holds \<open>frais1 = 0\<close> and
  \<open>type_garde1 = 'Subventionnee'\<close>: the \<open>else\<close> branch of the loop writes both keys.
\<close>

theorem older_child_carries_care_attributes:
  "generate_test_cases replay 1 [1, 0, 0, 1, 2] =
     Inr ([[(''situation'', PStr ''Famille monoparentale''), (''revenu1'', PInt 0),
            (''age1'', PInt 25), (''revenu2'', PInt 0), (''age2'', PInt 0),
            (''nb_enfants'', PInt 1), (''age_enfant1'', PInt 10), (''frais1'', PInt 0),
            (''type_garde1'', PStr (''Subventionn'' @ CHR 0xE9 # ''e''))]], [])"
  by code_simp

text \<open>
  C7, amended. In every case that \<open>generate_test_cases\<close> returns: a case whose
  situation is 'Personne vivant seule', 'Retraite vivant seul' or 'Couple de retraites'
  (with their accents) has \<open>nb_enfants = 0\<close> and no key besides the six of the adults;
  a child older than 5 carries the childcare fee 0 and the care-type 'Subventionnee';
  a fee other than 0, or a care-type other than 'Subventionnee', belongs to a child
  aged at most 5.
\<close>

theorem generated_children_structure:
  assumes "generate_test_cases randbelow nobs s = Inr (cases, s')" and "c \<in> set cases"
  shows "(\<exists>sit. map_of c ''situation'' = Some (PStr sit) \<and> sit \<in> set situations
          \<and> (sit \<in> {''Personne vivant seule'', ''Retrait'' @ CHR 0xE9 # '' vivant seul'',
                     ''Couple de retrait'' @ CHR 0xE9 # ''s''} \<longrightarrow>
               map_of c ''nb_enfants'' = Some (PInt 0)
             \<and> map fst c =
                 [''situation'', ''revenu1'', ''age1'', ''revenu2'', ''age2'', ''nb_enfants'']))
     \<and> (\<forall>i a. map_of c (''age_enfant'' @ str i) = Some (PInt a) \<and> 5 < a \<longrightarrow>
           map_of c (''frais'' @ str i) = Some (PInt 0)
         \<and> map_of c (''type_garde'' @ str i) = Some (PStr (''Subventionn'' @ CHR 0xE9 # ''e'')))
     \<and> (\<forall>i v. map_of c (''frais'' @ str i) = Some v \<and> v \<noteq> PInt 0 \<longrightarrow>
           (\<exists>a. a \<le> 5 \<and> map_of c (''age_enfant'' @ str i) = Some (PInt a)))
     \<and> (\<forall>i v. map_of c (''type_garde'' @ str i) = Some v
              \<and> v \<noteq> PStr (''Subventionn'' @ CHR 0xE9 # ''e'') \<longrightarrow>
           (\<exists>a. a \<le> 5 \<and> map_of c (''age_enfant'' @ str i) = Some (PInt a)))"
proof -
  from generated_case_ok [OF assms] obtain sit n where
    sit: "map_of c ''situation'' = Some (PStr sit)" "sit \<in> set situations"
    and n: "map_of c ''nb_enfants'' = Some (PInt n)"
      "\<not> peut_avoir_enfants sit \<longrightarrow> n = 0 \<and> map fst c = base_keys"
    and ok: "child_ok (map_of c)"
    by (rule case_okE)
  have "sit \<in> {''Personne vivant seule'', ''Retrait'' @ CHR 0xE9 # '' vivant seul'',
                 ''Couple de retrait'' @ CHR 0xE9 # ''s''} \<longrightarrow>
          map_of c ''nb_enfants'' = Some (PInt 0)
        \<and> map fst c = [''situation'', ''revenu1'', ''age1'', ''revenu2'', ''age2'', ''nb_enfants'']"
  proof
    assume "sit \<in> {''Personne vivant seule'', ''Retrait'' @ CHR 0xE9 # '' vivant seul'',
                 ''Couple de retrait'' @ CHR 0xE9 # ''s''}"
    then have "\<not> peut_avoir_enfants sit" by (rule childless)
    with n have "n = 0" and "map fst c = base_keys" by simp_all
    with n(1) show "map_of c ''nb_enfants'' = Some (PInt 0)
        \<and> map fst c = [''situation'', ''revenu1'', ''age1'', ''revenu2'', ''age2'', ''nb_enfants'']"
      by (simp add: base_keys_def)
  qed
  with sit have first: "\<exists>sit. map_of c ''situation'' = Some (PStr sit) \<and> sit \<in> set situations
          \<and> (sit \<in> {''Personne vivant seule'', ''Retrait'' @ CHR 0xE9 # '' vivant seul'',
                     ''Couple de retrait'' @ CHR 0xE9 # ''s''} \<longrightarrow>
               map_of c ''nb_enfants'' = Some (PInt 0)
             \<and> map fst c =
                 [''situation'', ''revenu1'', ''age1'', ''revenu2'', ''age2'', ''nb_enfants''])"
    by (intro exI [of _ sit] conjI)
  have k: "(\<forall>a. map_of c (''age_enfant'' @ str i) = Some (PInt a) \<longrightarrow> 5 < a \<longrightarrow>
           map_of c (''frais'' @ str i) = Some (PInt 0)
         \<and> map_of c (''type_garde'' @ str i) = Some (PStr (''Subventionn'' @ CHR 0xE9 # ''e'')))
      \<and> (\<forall>v. map_of c (''frais'' @ str i) = Some v \<longrightarrow> v \<noteq> PInt 0 \<longrightarrow>
           (\<exists>a. a \<le> 5 \<and> map_of c (''age_enfant'' @ str i) = Some (PInt a)))
      \<and> (\<forall>v. map_of c (''type_garde'' @ str i) = Some v \<longrightarrow>
              v \<noteq> PStr (''Subventionn'' @ CHR 0xE9 # ''e'') \<longrightarrow>
           (\<exists>a. a \<le> 5 \<and> map_of c (''age_enfant'' @ str i) = Some (PInt a)))" for i
    using ok unfolding child_ok_def subv_def by (rule spec)
  have second: "\<forall>i a. map_of c (''age_enfant'' @ str i) = Some (PInt a) \<and> 5 < a \<longrightarrow>
           map_of c (''frais'' @ str i) = Some (PInt 0)
         \<and> map_of c (''type_garde'' @ str i) = Some (PStr (''Subventionn'' @ CHR 0xE9 # ''e''))"
    using k by fast
  have third: "\<forall>i v. map_of c (''frais'' @ str i) = Some v \<and> v \<noteq> PInt 0 \<longrightarrow>
           (\<exists>a. a \<le> 5 \<and> map_of c (''age_enfant'' @ str i) = Some (PInt a))"
    using k by fast
  have fourth: "\<forall>i v. map_of c (''type_garde'' @ str i) = Some v
              \<and> v \<noteq> PStr (''Subventionn'' @ CHR 0xE9 # ''e'') \<longrightarrow>
           (\<exists>a. a \<le> 5 \<and> map_of c (''age_enfant'' @ str i) = Some (PInt a))"
    using k by fast
  from first second third fourth show ?thesis
    by (intro conjI)
qed

theorem generated_children_structure_witness:
  "map_of [(''situation'', PStr ''Famille monoparentale''), (''revenu1'', PInt 0),
            (''age1'', PInt 25), (''revenu2'', PInt 0), (''age2'', PInt 0),
            (''nb_enfants'', PInt 1), (''age_enfant1'', PInt 10), (''frais1'', PInt 0),
            (''type_garde1'', PStr (''Subventionn'' @ CHR 0xE9 # ''e''))] (''frais'' @ str 1) = Some (PInt 0)
  \<and> map fst [(''situation'', PStr (''Couple de retrait'' @ CHR 0xE9 # ''s'')),
            (''revenu1'', PInt 90000), (''age1'', PInt 85), (''revenu2'', PInt 45000),
            (''age2'', PInt 75), (''nb_enfants'', PInt 0)] =
       [''situation'', ''revenu1'', ''age1'', ''revenu2'', ''age2'', ''nb_enfants'']"
proof -
  have a: "map_of [(''situation'', PStr ''Famille monoparentale''), (''revenu1'', PInt 0),
            (''age1'', PInt 25), (''revenu2'', PInt 0), (''age2'', PInt 0),
            (''nb_enfants'', PInt 1), (''age_enfant1'', PInt 10), (''frais1'', PInt 0),
            (''type_garde1'', PStr (''Subventionn'' @ CHR 0xE9 # ''e''))] (''age_enfant'' @ str 1)
        = Some (PInt 10) \<and> (5::int) < 10"
    by (simp add: str_1)
  from generated_children_structure [OF replay_run, THEN conjunct2, THEN conjunct1, rule_format, OF _ a]
  have "map_of [(''situation'', PStr ''Famille monoparentale''), (''revenu1'', PInt 0),
            (''age1'', PInt 25), (''revenu2'', PInt 0), (''age2'', PInt 0),
            (''nb_enfants'', PInt 1), (''age_enfant1'', PInt 10), (''frais1'', PInt 0),
            (''type_garde1'', PStr (''Subventionn'' @ CHR 0xE9 # ''e''))] (''frais'' @ str 1) = Some (PInt 0)"
    by simp
  then show ?thesis by simp
qed



text \<open>
  C10. In every case that \<open>generate_test_cases\<close> returns, the adults match the
  situation: a case that is neither 'Couple' nor 'Couple de retraites' has
  \<open>revenu2 = 0\<close> and \<open>age2 = 0\<close>; in a couple both incomes come from \<open>revenus\<close>
  and both ages from 65, 75, 85 when the situation is a retired one, from 25, 35, 45, 55
  otherwise.
\<close>

theorem generated_adults_match_situation:
  assumes "generate_test_cases randbelow nobs s = Inr (cases, s')" and "c \<in> set cases"
  shows "\<exists>sit revenu1 age1 revenu2 age2.
           map_of c ''situation'' = Some (PStr sit) \<and> sit \<in> set situations
         \<and> map_of c ''revenu1'' = Some (PInt revenu1)
         \<and> map_of c ''age1'' = Some (PInt age1)
         \<and> map_of c ''revenu2'' = Some (PInt revenu2)
         \<and> map_of c ''age2'' = Some (PInt age2)
         \<and> (sit \<notin> {''Couple'', ''Couple de retrait'' @ CHR 0xE9 # ''s''} \<longrightarrow>
              revenu2 = 0 \<and> age2 = 0)
         \<and> (sit \<in> {''Couple'', ''Couple de retrait'' @ CHR 0xE9 # ''s''} \<longrightarrow>
              revenu1 \<in> set revenus \<and> revenu2 \<in> set revenus
            \<and> (if sit \<in> {''Retrait'' @ CHR 0xE9 # '' vivant seul'',
                           ''Couple de retrait'' @ CHR 0xE9 # ''s''}
               then age1 \<in> {65, 75, 85} \<and> age2 \<in> {65, 75, 85}
               else age1 \<in> {25, 35, 45, 55} \<and> age2 \<in> {25, 35, 45, 55}))"
proof -
  from generated_case_ok [OF assms] obtain sit r1 a1 r2 a2 where
    sit: "map_of c ''situation'' = Some (PStr sit)" "sit \<in> set situations"
    and v: "map_of c ''revenu1'' = Some (PInt r1)" "map_of c ''age1'' = Some (PInt a1)"
      "map_of c ''revenu2'' = Some (PInt r2)" "map_of c ''age2'' = Some (PInt a2)"
    and r: "r1 \<in> set revenus" "a1 \<in> set (ages_adulte sit)"
      "if est_couple sit then r2 \<in> set revenus \<and> a2 \<in> set (ages_adulte sit)
       else r2 = 0 \<and> a2 = 0"
    by (rule case_okE)
  have single: "sit \<notin> {''Couple'', ''Couple de retrait'' @ CHR 0xE9 # ''s''} \<longrightarrow>
      r2 = 0 \<and> a2 = 0"
  proof
    assume "sit \<notin> {''Couple'', ''Couple de retrait'' @ CHR 0xE9 # ''s''}"
    then have "\<not> est_couple sit" by (simp add: couple_iff [OF sit(2)])
    with r(3) show "r2 = 0 \<and> a2 = 0" by simp
  qed
  have ages: "set (ages_adulte sit) =
      (if sit \<in> {''Retrait'' @ CHR 0xE9 # '' vivant seul'',
                  ''Couple de retrait'' @ CHR 0xE9 # ''s''}
       then {65, 75, 85} else {25, 35, 45, 55})"
    unfolding ages_adulte_def retraite_iff [OF sit(2)]
    by (simp add: ages_retraite_def ages_travailleur_def)
  have couple: "sit \<in> {''Couple'', ''Couple de retrait'' @ CHR 0xE9 # ''s''} \<longrightarrow>
              r1 \<in> set revenus \<and> r2 \<in> set revenus
            \<and> (if sit \<in> {''Retrait'' @ CHR 0xE9 # '' vivant seul'',
                           ''Couple de retrait'' @ CHR 0xE9 # ''s''}
               then a1 \<in> {65, 75, 85} \<and> a2 \<in> {65, 75, 85}
               else a1 \<in> {25, 35, 45, 55} \<and> a2 \<in> {25, 35, 45, 55})"
  proof
    assume "sit \<in> {''Couple'', ''Couple de retrait'' @ CHR 0xE9 # ''s''}"
    then have "est_couple sit" by (simp add: couple_iff [OF sit(2)])
    with r(3) have "r2 \<in> set revenus" and "a2 \<in> set (ages_adulte sit)" by simp_all
    have "if sit \<in> {''Retrait'' @ CHR 0xE9 # '' vivant seul'',
                           ''Couple de retrait'' @ CHR 0xE9 # ''s''}
               then a1 \<in> {65, 75, 85} \<and> a2 \<in> {65, 75, 85}
               else a1 \<in> {25, 35, 45, 55} \<and> a2 \<in> {25, 35, 45, 55}"
      using r(2) \<open>a2 \<in> set (ages_adulte sit)\<close> ages by (rule if_mem)
    with r(1) \<open>r2 \<in> set revenus\<close>
    show "r1 \<in> set revenus \<and> r2 \<in> set revenus
            \<and> (if sit \<in> {''Retrait'' @ CHR 0xE9 # '' vivant seul'',
                           ''Couple de retrait'' @ CHR 0xE9 # ''s''}
               then a1 \<in> {65, 75, 85} \<and> a2 \<in> {65, 75, 85}
               else a1 \<in> {25, 35, 45, 55} \<and> a2 \<in> {25, 35, 45, 55})"
      by (intro conjI)
  qed
  from sit v single couple show ?thesis
    by (intro exI [of _ sit] exI [of _ r1] exI [of _ a1] exI [of _ r2] exI [of _ a2] conjI)
qed

theorem generated_adults_match_situation_witness:
  "\<exists>sit revenu2 age2.
      map_of [(''situation'', PStr (''Couple de retrait'' @ CHR 0xE9 # ''s'')),
            (''revenu1'', PInt 90000), (''age1'', PInt 85), (''revenu2'', PInt 45000),
            (''age2'', PInt 75), (''nb_enfants'', PInt 0)] ''situation'' = Some (PStr sit)
    \<and> map_of [(''situation'', PStr (''Couple de retrait'' @ CHR 0xE9 # ''s'')),
            (''revenu1'', PInt 90000), (''age1'', PInt 85), (''revenu2'', PInt 45000),
            (''age2'', PInt 75), (''nb_enfants'', PInt 0)] ''revenu2'' = Some (PInt revenu2)
    \<and> map_of [(''situation'', PStr (''Couple de retrait'' @ CHR 0xE9 # ''s'')),
            (''revenu1'', PInt 90000), (''age1'', PInt 85), (''revenu2'', PInt 45000),
            (''age2'', PInt 75), (''nb_enfants'', PInt 0)] ''age2'' = Some (PInt age2)
    \<and> sit \<in> {''Couple'', ''Couple de retrait'' @ CHR 0xE9 # ''s''}
    \<and> revenu2 \<in> set revenus \<and> age2 \<in> {65, 75, 85}"
proof -
  have mem: "[(''situation'', PStr (''Couple de retrait'' @ CHR 0xE9 # ''s'')),
            (''revenu1'', PInt 90000), (''age1'', PInt 85), (''revenu2'', PInt 45000),
            (''age2'', PInt 75), (''nb_enfants'', PInt 0)]
      \<in> set [[(''situation'', PStr ''Famille monoparentale''), (''revenu1'', PInt 0),
            (''age1'', PInt 25), (''revenu2'', PInt 0), (''age2'', PInt 0),
            (''nb_enfants'', PInt 1), (''age_enfant1'', PInt 10), (''frais1'', PInt 0),
            (''type_garde1'', PStr (''Subventionn'' @ CHR 0xE9 # ''e''))],
           [(''situation'', PStr (''Couple de retrait'' @ CHR 0xE9 # ''s'')),
            (''revenu1'', PInt 90000), (''age1'', PInt 85), (''revenu2'', PInt 45000),
            (''age2'', PInt 75), (''nb_enfants'', PInt 0)]]"
    by simp
  from generated_adults_match_situation [OF replay_run mem] show ?thesis
    by (simp add: revenus_def)
qed

end

